theory Spec2Isabelle
  imports
    Main
    "HOL-Library.Char_ord"
    "HOL-Library.List_Lexorder"
    "HOL-Library.Multiset"
begin

section \<open>Go strings and the standard-library string functions the client uses\<close>

text \<open>
  A Go string is a sequence of bytes, here a \<open>string\<close> (a \<open>char list\<close>).
  \<open>strings.ToLower\<close> has two paths. On a string of bytes below 128 it maps
  \<open>A\<close>..\<open>Z\<close> to \<open>a\<close>..\<open>z\<close> and leaves every other byte alone. On any other string it
  returns \<open>strings.Map(unicode.ToLower, s)\<close>, which decodes the runes of the string and
  maps each one through the Unicode case tables. The tables are data of the standard
  library, so that second path is a parameter \<open>lower\<close> of the model, of every function
  that reaches \<open>strings.ToLower\<close> and of every theorem about one: a theorem holds
  whatever the tables are.
\<close>

type_synonym CaseMapping = "string \<Rightarrow> string"

definition isASCII :: "string \<Rightarrow> bool" where
  "isASCII s = list_all (\<lambda>c. (of_char c :: nat) < 128) s"

definition isUpperByte :: "char \<Rightarrow> bool" where
  "isUpperByte c = (65 \<le> (of_char c :: nat) \<and> (of_char c :: nat) \<le> 90)"

definition isLowerByte :: "char \<Rightarrow> bool" where
  "isLowerByte c = (97 \<le> (of_char c :: nat) \<and> (of_char c :: nat) \<le> 122)"

definition isDigitByte :: "char \<Rightarrow> bool" where
  "isDigitByte c = (48 \<le> (of_char c :: nat) \<and> (of_char c :: nat) \<le> 57)"

definition toLowerByte :: "char \<Rightarrow> char" where
  "toLowerByte c = (if isUpperByte c then char_of ((of_char c :: nat) + 32) else c)"

definition ToLower :: "CaseMapping \<Rightarrow> string \<Rightarrow> string" where
  "ToLower lower s = (if isASCII s then map toLowerByte s else lower s)"

text \<open>\<open>strings.HasSuffix\<close> and \<open>strings.TrimSuffix\<close>: the suffix is removed once.\<close>

definition HasSuffix :: "string \<Rightarrow> string \<Rightarrow> bool" where
  "HasSuffix s suffix =
     (length suffix \<le> length s \<and> drop (length s - length suffix) s = suffix)"

definition TrimSuffix :: "string \<Rightarrow> string \<Rightarrow> string" where
  "TrimSuffix s suffix =
     (if HasSuffix s suffix then take (length s - length suffix) s else s)"

subsection \<open>Decimal text of an integer\<close>

definition digitByte :: "nat \<Rightarrow> char" where
  "digitByte d = char_of (48 + d)"

fun natDigits :: "nat \<Rightarrow> string" where
  "natDigits n = (if n < 10 then [digitByte n] else natDigits (n div 10) @ [digitByte (n mod 10)])"

declare natDigits.simps [simp del]

definition Itoa :: "int \<Rightarrow> string" where
  "Itoa i = (if i < 0 then CHR ''-'' # natDigits (nat (- i)) else natDigits (nat i))"

section \<open>Go values seen through reflection and \<open>fmt\<close>\<close>

text \<open>
  The values an \<open>interface{}\<close> argument can hold, as far as this package looks at
  them: the nil interface, scalars (a string, an \<open>int\<close>, a \<open>bool\<close>), a struct of
  named scalar fields, and a pointer (\<open>GPtr None\<close> is a typed nil pointer). A struct
  field carries what \<open>reflect.StructField\<close> and \<open>reflect.Value.Field\<close> give for it:
  its identifier, its package path (empty for an exported field, whose identifier starts
  with an upper-case letter of any script, and the path of the declaring package for
  every other field), the value of its \<open>query\<close> struct tag as \<open>Tag.Get("query")\<close>
  returns it (empty when the tag is absent) and its value.
  Floating-point, nested struct and collection fields are outside the model: their
  \<open>%v\<close> text involves float formatting and addresses.
\<close>

datatype scalar = GString string | GInt int | GBool bool

record StructField =
  Name :: string
  PkgPath :: string
  TagQuery :: string
  FieldValue :: scalar

datatype gvalue =
    GNil
  | GScalar scalar
  | GStruct "StructField list"
  | GPtr "gvalue option"

datatype Kind = Invalid | KString | KInt | KBool | Struct | Ptr

fun scalarKind :: "scalar \<Rightarrow> Kind" where
  "scalarKind (GString _) = KString"
| "scalarKind (GInt _) = KInt"
| "scalarKind (GBool _) = KBool"

text \<open>\<open>reflect.Value.Kind\<close>; the zero \<open>Value\<close> (of a nil interface) has kind \<open>Invalid\<close>.\<close>

fun KindOf :: "gvalue \<Rightarrow> Kind" where
  "KindOf GNil = Invalid"
| "KindOf (GScalar s) = scalarKind s"
| "KindOf (GStruct _) = Struct"
| "KindOf (GPtr _) = Ptr"

text \<open>
  \<open>reflect.Value.Elem\<close> on a pointer: the pointed-to value, and the zero \<open>Value\<close>
  for a nil pointer. The client calls it on values of kind \<open>Ptr\<close> only.
\<close>

fun Elem :: "gvalue \<Rightarrow> gvalue" where
  "Elem (GPtr (Some v)) = v"
| "Elem (GPtr None) = GNil"
| "Elem v = v"

text \<open>
  \<open>reflect.StructField.IsExported\<close>: a field is exported when its package path is
  empty. \<open>reflect.Value.Interface\<close> panics on the value of a field that is not.
\<close>

definition IsExported :: "StructField \<Rightarrow> bool" where
  "IsExported f = (PkgPath f = [])"

subsection \<open>\<open>fmt.Sprintf\<close>\<close>

text \<open>
  The verbs \<open>%v\<close>, \<open>%s\<close>, \<open>%d\<close>, \<open>%t\<close> and the literal \<open>%%\<close> on scalar operands,
  with the texts Go prints for a verb that does not fit its operand, for a missing
  operand, for a trailing \<open>%\<close> and for operands left over. Flags, width, precision,
  argument indexes and the other verbs are outside the model.
\<close>

fun typeName :: "scalar \<Rightarrow> string" where
  "typeName (GString _) = ''string''"
| "typeName (GInt _) = ''int''"
| "typeName (GBool _) = ''bool''"

fun fmtV :: "scalar \<Rightarrow> string" where
  "fmtV (GString s) = s"
| "fmtV (GInt i) = Itoa i"
| "fmtV (GBool b) = (if b then ''true'' else ''false'')"

definition badVerb :: "char \<Rightarrow> scalar \<Rightarrow> string" where
  "badVerb verb a = ''%!'' @ [verb] @ ''('' @ typeName a @ ''='' @ fmtV a @ '')''"

definition printArg :: "char \<Rightarrow> scalar \<Rightarrow> string" where
  "printArg verb a =
     (if verb = CHR ''v'' then fmtV a
      else case a of
          GString s \<Rightarrow> (if verb = CHR ''s'' then s else badVerb verb a)
        | GInt i \<Rightarrow> (if verb = CHR ''d'' then Itoa i else badVerb verb a)
        | GBool b \<Rightarrow> (if verb = CHR ''t'' then fmtV a else badVerb verb a))"

fun extraArgs :: "scalar list \<Rightarrow> string" where
  "extraArgs [] = []"
| "extraArgs [a] = typeName a @ ''='' @ fmtV a"
| "extraArgs (a # as) = typeName a @ ''='' @ fmtV a @ '', '' @ extraArgs as"

definition extraString :: "scalar list \<Rightarrow> string" where
  "extraString as = (if as = [] then [] else ''%!(EXTRA '' @ extraArgs as @ '')'')"

fun Sprintf :: "string \<Rightarrow> scalar list \<Rightarrow> string" where
  "Sprintf [] as = extraString as"
| "Sprintf [c] as = (if c = CHR ''%'' then ''%!(NOVERB)'' @ extraString as else c # extraString as)"
| "Sprintf (c # verb # rest) as =
     (if c \<noteq> CHR ''%'' then c # Sprintf (verb # rest) as
      else if verb = CHR ''%'' then CHR ''%'' # Sprintf rest as
      else case as of
          [] \<Rightarrow> ''%!'' @ [verb] @ ''(MISSING)'' @ Sprintf rest []
        | a # as' \<Rightarrow> printArg verb a @ Sprintf rest as')"

section \<open>\<open>net/url\<close>: query escaping and \<open>url.Values\<close>\<close>

text \<open>
  \<open>url.QueryEscape\<close>: letters, digits and \<open>- _ . ~\<close> stay, a space becomes \<open>+\<close>,
  every other byte becomes \<open>%\<close> and two upper-case hexadecimal digits.
\<close>

definition shouldEscape :: "char \<Rightarrow> bool" where
  "shouldEscape c =
     (\<not> (isLowerByte c \<or> isUpperByte c \<or> isDigitByte c
         \<or> c = CHR ''-'' \<or> c = CHR ''_'' \<or> c = CHR ''.'' \<or> c = CHR ''~''))"

definition upperhex :: "nat \<Rightarrow> char" where
  "upperhex d = (''0123456789ABCDEF'' ! d)"

definition escapeByte :: "char \<Rightarrow> string" where
  "escapeByte c =
     (if \<not> shouldEscape c then [c]
      else if c = CHR '' '' then ''+''
      else [CHR ''%'', upperhex ((of_char c :: nat) div 16), upperhex ((of_char c :: nat) mod 16)])"

definition QueryEscape :: "string \<Rightarrow> string" where
  "QueryEscape s = concat (map escapeByte s)"

text \<open>
  \<open>url.Values\<close> is a map from a key to the list of its values. It is kept as an
  association list with one entry for each key; \<open>Add\<close> appends to the key's list.
\<close>

type_synonym Values = "(string \<times> string list) list"

fun Values_Add :: "Values \<Rightarrow> string \<Rightarrow> string \<Rightarrow> Values" where
  "Values_Add [] key v = [(key, [v])]"
| "Values_Add ((k, vs) # m) key v =
     (if k = key then (k, vs @ [v]) # m else (k, vs) # Values_Add m key v)"

definition Values_lookup :: "Values \<Rightarrow> string \<Rightarrow> string list" where
  "Values_lookup m key = (case map_of m key of None \<Rightarrow> [] | Some vs \<Rightarrow> vs)"

text \<open>
  \<open>Values.Encode\<close>: the keys are sorted as strings (bytewise); for each key and each
  of its values, in order, the buffer receives \<open>&\<close> when it is not empty, then the
  escaped key, \<open>=\<close> and the escaped value.
\<close>

definition writePair :: "string \<Rightarrow> string \<Rightarrow> string \<Rightarrow> string" where
  "writePair buf keyEscaped v =
     (if buf \<noteq> [] then buf @ ''&'' else buf) @ keyEscaped @ ''='' @ QueryEscape v"

definition Values_Encode :: "Values \<Rightarrow> string" where
  "Values_Encode m =
     foldl (\<lambda>buf k. foldl (\<lambda>buf v. writePair buf (QueryEscape k) v) buf (Values_lookup m k))
       [] (sort (map fst m))"

section \<open>utils.go: \<open>StructToQueryParams\<close>\<close>

type_synonym error = string
type_synonym panic = string

definition InvalidInputKind :: error where
  "InvalidInputKind = ''input data must be a struct''"

definition unexportedPanic :: panic where
  "unexportedPanic =
     ''reflect.Value.Interface: cannot return value obtained from unexported field or method''"

text \<open>
  The loop over the fields, with the \<open>url.Values\<close> built so far. The value of an
  unexported field cannot be taken: the call panics there.
\<close>

fun addFields :: "CaseMapping \<Rightarrow> StructField list \<Rightarrow> Values \<Rightarrow> panic + Values" where
  "addFields lower [] queryParams = Inr queryParams"
| "addFields lower (field # rest) queryParams =
     (let fieldName = (if TagQuery field = [] then ToLower lower (Name field) else TagQuery field)
      in if \<not> IsExported field then Inl unexportedPanic
         else addFields lower rest
                (Values_Add queryParams fieldName (Sprintf ''%v'' [FieldValue field])))"

text \<open>
  The result is a panic (\<open>Inl\<close>) or the pair Go returns: the string and the error
  (\<open>None\<close> for \<open>nil\<close>).
\<close>

definition StructToQueryParams ::
  "CaseMapping \<Rightarrow> gvalue \<Rightarrow> panic + (string \<times> error option)" where
  "StructToQueryParams lower data =
     (let v = data;
          v = (if KindOf v = Ptr then Elem v else v)
      in case v of
          GStruct fs \<Rightarrow>
            (case addFields lower fs [] of
               Inl p \<Rightarrow> Inl p
             | Inr queryParams \<Rightarrow> Inr (Values_Encode queryParams, None))
        | _ \<Rightarrow> Inr ([], Some InvalidInputKind))"

section \<open>\<open>net/url\<close>: reading a query string back\<close>

text \<open>
  \<open>url.QueryUnescape\<close> fails (\<open>None\<close>) on a \<open>%\<close> that is not followed by two
  hexadecimal digits; \<open>+\<close> stands for a space.
\<close>

definition unhex :: "char \<Rightarrow> nat option" where
  "unhex c =
     (if isDigitByte c then Some ((of_char c :: nat) - 48)
      else if 97 \<le> (of_char c :: nat) \<and> (of_char c :: nat) \<le> 102 then Some ((of_char c :: nat) - 87)
      else if 65 \<le> (of_char c :: nat) \<and> (of_char c :: nat) \<le> 70 then Some ((of_char c :: nat) - 55)
      else None)"

fun QueryUnescape :: "string \<Rightarrow> string option" where
  "QueryUnescape [] = Some []"
| "QueryUnescape (c # s) =
     (if c = CHR ''%'' then
        (case s of
           h1 # h2 # rest \<Rightarrow>
             (case (unhex h1, unhex h2) of
                (Some a, Some b) \<Rightarrow> map_option ((#) (char_of (16 * a + b))) (QueryUnescape rest)
              | _ \<Rightarrow> None)
         | _ \<Rightarrow> None)
      else if c = CHR ''+'' then map_option ((#) CHR '' '') (QueryUnescape s)
      else map_option ((#) c) (QueryUnescape s))"

text \<open>\<open>strings.Cut\<close> at a one-byte separator: the text before it and the text after it.\<close>

definition Cut :: "string \<Rightarrow> char \<Rightarrow> string \<times> string" where
  "Cut s sep = (takeWhile (\<lambda>c. c \<noteq> sep) s, drop 1 (dropWhile (\<lambda>c. c \<noteq> sep) s))"

text \<open>
  The loop of \<open>url.ParseQuery\<close>, whose error the caller \<open>URL.Query\<close> drops: a segment
  with a semicolon, an empty segment and a segment that does not unescape are skipped.
\<close>

function parseQuery :: "Values \<Rightarrow> string \<Rightarrow> Values" where
  "parseQuery m query =
     (if query = [] then m
      else let key = fst (Cut query CHR ''&''); query' = snd (Cut query CHR ''&'')
           in if CHR '';'' \<in> set key then parseQuery m query'
              else if key = [] then parseQuery m query'
              else (case QueryUnescape (fst (Cut key CHR ''='')) of
                      None \<Rightarrow> parseQuery m query'
                    | Some k \<Rightarrow>
                        (case QueryUnescape (snd (Cut key CHR ''='')) of
                           None \<Rightarrow> parseQuery m query'
                         | Some v \<Rightarrow> parseQuery (Values_Add m k v) query')))"
  by pat_completeness auto
termination
proof (relation "measure (\<lambda>(m, query). length query)", goal_cases)
  have shorter: "length (snd (Cut query CHR ''&'')) < length query" if "query \<noteq> []" for query
  proof -
    have "length (dropWhile (\<lambda>c. c \<noteq> CHR ''&'') query) \<le> length query"
      by (rule length_dropWhile_le)
    moreover from that have "0 < length query"
      by simp
    ultimately show ?thesis
      unfolding Cut_def snd_conv length_drop by linarith
  qed
  {
    case 1
    show ?case by simp
  }
  {
    case 2
    then show ?case by (simp add: shorter)
  }
  {
    case 3
    then show ?case by (simp add: shorter)
  }
  {
    case 4
    then show ?case by (simp add: shorter)
  }
  {
    case 5
    then show ?case by (simp add: shorter)
  }
  {
    case 6
    then show ?case by (simp add: shorter)
  }
qed

declare parseQuery.simps [simp del]

definition Values_Get :: "Values \<Rightarrow> string \<Rightarrow> string" where
  "Values_Get m key = (case Values_lookup m key of [] \<Rightarrow> [] | v # _ \<Rightarrow> v)"

section \<open>\<open>net/http\<close>: requests\<close>

text \<open>
  The parts of a request the client reads or writes. \<open>Header\<close> is a map from a key to
  its values, kept as an association list; \<open>Header.Set\<close> replaces the values of a key.
  The keys this package sets are in canonical MIME form already, so the canonicalisation
  that \<open>Set\<close> and \<open>Get\<close> apply to a key is left out.
\<close>

record Url =
  Scheme :: string
  Host :: string
  Path :: string
  RawQuery :: string

type_synonym Header = "(string \<times> string list) list"

record Request =
  Method :: string
  URL :: Url
  Header :: Header
  Body :: "string option"

fun Header_Set :: "Header \<Rightarrow> string \<Rightarrow> string \<Rightarrow> Header" where
  "Header_Set [] key v = [(key, [v])]"
| "Header_Set ((k, vs) # h) key v =
     (if k = key then (k, [v]) # h else (k, vs) # Header_Set h key v)"

definition Header_Get :: "Header \<Rightarrow> string \<Rightarrow> string" where
  "Header_Get h key = (case map_of h key of Some (v # _) \<Rightarrow> v | _ \<Rightarrow> [])"

definition URL_Query :: "Url \<Rightarrow> Values" where
  "URL_Query u = parseQuery [] (RawQuery u)"

text \<open>
  The standard library the verbs call, as parameters: \<open>json.Marshal\<close> on the body,
  \<open>url.Parse\<close> inside \<open>http.NewRequest\<close>, and \<open>http.DefaultClient.Do\<close>, the transport.
\<close>

record ('body, 'resp) Stdlib =
  json_Marshal :: "'body \<Rightarrow> error + string"
  url_Parse :: "string \<Rightarrow> error + Url"
  http_Do :: "Request \<Rightarrow> error + 'resp"

text \<open>\<open>http.NewRequest\<close> with one of the method names of this package: a fresh header.\<close>

definition NewRequest ::
  "('body, 'resp) Stdlib \<Rightarrow> string \<Rightarrow> string \<Rightarrow> string option \<Rightarrow> error + Request" where
  "NewRequest lib method url body =
     (case url_Parse lib url of
        Inl err \<Rightarrow> Inl err
      | Inr u \<Rightarrow> Inr \<lparr>Method = method, URL = u, Header = [], Body = body\<rparr>)"

section \<open>client.go: the REST client\<close>

definition serviceType :: string where
  "serviceType = ''rest''"

text \<open>The mutex of the client guards \<open>init\<close> only; \<open>init\<close> is one atomic step here.\<close>

record RestClient =
  BaseURL :: string
  resourceName :: string
  ready :: bool

text \<open>
  A \<open>ConfigProvider\<close> is used through \<open>GetServiceAddress\<close> only: from a service name
  and a port type to an address or an error.
\<close>

type_synonym ConfigProvider = "string \<Rightarrow> string \<Rightarrow> error + string"

text \<open>
  \<open>init\<close> mutates the client in place and may panic: the result is the panic value, if
  any, and the client as the call leaves it. The log line is not part of the state.
\<close>

definition init ::
  "CaseMapping \<Rightarrow> RestClient \<Rightarrow> ConfigProvider \<Rightarrow> panic option \<times> RestClient" where
  "init lower c provider =
     (if ready c then (Some ''Client already initialized'', c)
      else case provider (resourceName c) serviceType of
          Inl err \<Rightarrow>
            (Some (Sprintf ''Error getting service address for %s: %s''
                     [GString (resourceName c), GString err]), c)
        | Inr service \<Rightarrow>
            (let c = c\<lparr>BaseURL := ToLower lower service\<rparr>;
                 c = c\<lparr>BaseURL := TrimSuffix (BaseURL c) ''/''\<rparr>
             in (None, c\<lparr>ready := True\<rparr>)))"

text \<open>
  \<open>NewRestClient\<close> returns the client and, with \<open>autoInit\<close>, the callback it hands to
  \<open>CONFIG.OnReady\<close>: the callback runs \<open>init\<close> on the client as it is when it fires.
\<close>

definition NewRestClient ::
  "CaseMapping \<Rightarrow> string \<Rightarrow> bool \<Rightarrow>
     RestClient \<times> (ConfigProvider \<Rightarrow> RestClient \<Rightarrow> panic option \<times> RestClient) option" where
  "NewRestClient lower name autoInit =
     (let client = \<lparr>BaseURL = [], resourceName = name, ready = False\<rparr>
      in (client, if autoInit then Some (\<lambda>config c. init lower c config) else None))"

definition WithConfigProvider ::
  "CaseMapping \<Rightarrow> RestClient \<Rightarrow> ConfigProvider \<Rightarrow> panic option \<times> RestClient" where
  "WithConfigProvider lower c config = init lower c config"

definition ResolveURL :: "RestClient \<Rightarrow> string \<Rightarrow> scalar list \<Rightarrow> string" where
  "ResolveURL c path args = Sprintf ''%s%s'' [GString (BaseURL c), GString (Sprintf path args)]"

text \<open>A request modifier mutates the request or panics.\<close>

type_synonym modifier = "Request \<Rightarrow> panic + Request"

definition QueryParameterRequestModifier :: "CaseMapping \<Rightarrow> gvalue \<Rightarrow> modifier" where
  "QueryParameterRequestModifier lower queryParams req =
     (case StructToQueryParams lower queryParams of
        Inl p \<Rightarrow> Inl p
      | Inr (params, Some err) \<Rightarrow> Inl (Sprintf ''error creating query parameters: %s'' [GString err])
      | Inr (params, None) \<Rightarrow>
          Inr (req\<lparr>URL := (URL req)\<lparr>RawQuery := RawQuery (URL req) @ params\<rparr>\<rparr>))"

fun applyModifiers :: "modifier list \<Rightarrow> Request \<Rightarrow> panic + Request" where
  "applyModifiers [] req = Inr req"
| "applyModifiers (modifier # requestModifier) req =
     (case modifier req of
        Inl p \<Rightarrow> Inl p
      | Inr req' \<Rightarrow> applyModifiers requestModifier req')"

text \<open>
  The verbs return a panic (\<open>Inl\<close>) or what Go returns: an error with a nil response
  (\<open>Inr (Inl err)\<close>) or the response of the transport.
\<close>

definition bodyless ::
  "('body, 'resp) Stdlib \<Rightarrow> string \<Rightarrow> string \<Rightarrow> modifier list \<Rightarrow> panic + (error + 'resp)" where
  "bodyless lib method url requestModifier =
     (case NewRequest lib method url None of
        Inl err \<Rightarrow> Inr (Inl err)
      | Inr req \<Rightarrow>
          (case applyModifiers requestModifier req of
             Inl p \<Rightarrow> Inl p
           | Inr req' \<Rightarrow> Inr (http_Do lib req')))"

definition GET ::
  "('body, 'resp) Stdlib \<Rightarrow> RestClient \<Rightarrow> string \<Rightarrow> modifier list \<Rightarrow> panic + (error + 'resp)" where
  "GET lib c url requestModifier = bodyless lib ''GET'' url requestModifier"

definition DELETE ::
  "('body, 'resp) Stdlib \<Rightarrow> RestClient \<Rightarrow> string \<Rightarrow> modifier list \<Rightarrow> panic + (error + 'resp)" where
  "DELETE lib c url requestModifier = bodyless lib ''DELETE'' url requestModifier"

definition PUT ::
  "('body, 'resp) Stdlib \<Rightarrow> RestClient \<Rightarrow> string \<Rightarrow> 'body \<Rightarrow> modifier list
     \<Rightarrow> panic + (error + 'resp)" where
  "PUT lib c url body requestModifier =
     (case json_Marshal lib body of
        Inl err \<Rightarrow> Inr (Inl err)
      | Inr bodyData \<Rightarrow>
          (case NewRequest lib ''PUT'' url (Some bodyData) of
             Inl err \<Rightarrow> Inr (Inl err)
           | Inr req \<Rightarrow>
               (let req = req\<lparr>Header := Header_Set (Header req) ''Content-Type'' ''application/json''\<rparr>
                in case applyModifiers requestModifier req of
                     Inl p \<Rightarrow> Inl p
                   | Inr req' \<Rightarrow> Inr (http_Do lib req'))))"

definition POST ::
  "('body, 'resp) Stdlib \<Rightarrow> RestClient \<Rightarrow> string \<Rightarrow> 'body \<Rightarrow> modifier list
     \<Rightarrow> panic + (error + 'resp)" where
  "POST lib c url body requestModifier =
     (case json_Marshal lib body of
        Inl err \<Rightarrow> Inr (Inl err)
      | Inr bodyData \<Rightarrow>
          (case NewRequest lib ''POST'' url (Some bodyData) of
             Inl err \<Rightarrow> Inr (Inl err)
           | Inr req \<Rightarrow>
               (let req = req\<lparr>Header := Header_Set (Header req) ''Content-Type'' ''application/json''\<rparr>
                in case applyModifiers requestModifier req of
                     Inl p \<Rightarrow> Inl p
                   | Inr req' \<Rightarrow> Inr (http_Do lib req'))))"

definition PATCH ::
  "('body, 'resp) Stdlib \<Rightarrow> RestClient \<Rightarrow> string \<Rightarrow> 'body \<Rightarrow> modifier list
     \<Rightarrow> panic + (error + 'resp)" where
  "PATCH lib c url body requestModifier =
     (case json_Marshal lib body of
        Inl err \<Rightarrow> Inr (Inl err)
      | Inr bodyData \<Rightarrow>
          (case NewRequest lib ''PATCH'' url (Some bodyData) of
             Inl err \<Rightarrow> Inr (Inl err)
           | Inr req \<Rightarrow>
               (let req = req\<lparr>Header := Header_Set (Header req) ''Content-Type'' ''application/json''\<rparr>
                in case applyModifiers requestModifier req of
                     Inl p \<Rightarrow> Inl p
                   | Inr req' \<Rightarrow> Inr (http_Do lib req'))))"

section \<open>The query string as the specification describes it\<close>

text \<open>
  A Go identifier in ASCII: a letter or an underscore, then letters, digits and
  underscores. (A Go identifier may also contain letters and digits of other scripts.)
\<close>

definition isLetterByte :: "char \<Rightarrow> bool" where
  "isLetterByte c = (isLowerByte c \<or> isUpperByte c \<or> c = CHR ''_'')"

definition isIdentifier :: "string \<Rightarrow> bool" where
  "isIdentifier s =
     (case s of
        [] \<Rightarrow> False
      | c # cs \<Rightarrow> isLetterByte c \<and> list_all (\<lambda>d. isLetterByte d \<or> isDigitByte d) cs)"

text \<open>
  The specification's words, for comparison with \<open>StructToQueryParams\<close>: one pair for
  each field, the key being the field's identifier in lower case and the value the
  text of the field's value; the pairs ordered by key (a stable sort, so that fields
  with the same key keep their order); each pair written \<open>key=value\<close> with the key
  and the value percent-encoded; the pairs joined by \<open>&\<close>. The encoding leaves an
  ASCII identifier as it is.
\<close>

fun joinAmp :: "string list \<Rightarrow> string" where
  "joinAmp [] = []"
| "joinAmp [p] = p"
| "joinAmp (p # ps) = p @ ''&'' @ joinAmp ps"

definition specPairs :: "CaseMapping \<Rightarrow> StructField list \<Rightarrow> (string \<times> string) list" where
  "specPairs lower fs = map (\<lambda>f. (ToLower lower (Name f), fmtV (FieldValue f))) fs"

definition specQueryString :: "CaseMapping \<Rightarrow> StructField list \<Rightarrow> string" where
  "specQueryString lower fs =
     joinAmp (map (\<lambda>(k, v). QueryEscape k @ ''='' @ QueryEscape v)
                (sort_key fst (specPairs lower fs)))"

section \<open>Auxiliary notions for the proofs about the encoder\<close>

text \<open>
  The pair a field contributes in the code (with its tag, when it has one), the values
  after adding a list of pairs, the pairs \<open>Encode\<close> writes, the text of one pair, and
  the pairs of a list grouped under a list of keys.
\<close>

definition fieldPair :: "CaseMapping \<Rightarrow> StructField \<Rightarrow> string \<times> string" where
  "fieldPair lower f =
     ((if TagQuery f = [] then ToLower lower (Name f) else TagQuery f), fmtV (FieldValue f))"

definition addAll :: "Values \<Rightarrow> (string \<times> string) list \<Rightarrow> Values" where
  "addAll m ps = foldl (\<lambda>m (k, v). Values_Add m k v) m ps"

definition pairsOf :: "Values \<Rightarrow> (string \<times> string) list" where
  "pairsOf m = concat (map (\<lambda>k. map (Pair k) (Values_lookup m k)) (sort (map fst m)))"

definition pairText :: "string \<times> string \<Rightarrow> string" where
  "pairText p = QueryEscape (fst p) @ ''='' @ QueryEscape (snd p)"

definition grouped :: "string list \<Rightarrow> (string \<times> string) list \<Rightarrow> (string \<times> string) list" where
  "grouped ks ps = concat (map (\<lambda>k. filter (\<lambda>p. fst p = k) ps) ks)"

section \<open>Example inputs\<close>

text \<open>
  A case mapping for the examples. It is Go's \<open>strings.Map(unicode.ToLower, s)\<close> on
  UTF-8 text whose runes are below U+0100: an ASCII byte goes through \<open>toLowerByte\<close>;
  the upper-case letters there are U+00C0 to U+00DE without U+00D7, written as the byte
  0xC3 and a byte from 0x80 to 0x9E other than 0x97, and each becomes the rune 32 places
  on, the same first byte and the second plus 32; every other byte is kept.
\<close>

fun latin1Lower :: CaseMapping where
  "latin1Lower [] = []"
| "latin1Lower [c] = [toLowerByte c]"
| "latin1Lower (c # d # cs) =
     (if c = CHR 0xC3 \<and> 0x80 \<le> (of_char d :: nat) \<and> (of_char d :: nat) \<le> 0x9E \<and> d \<noteq> CHR 0x97
      then c # char_of ((of_char d :: nat) + 32) # latin1Lower cs
      else toLowerByte c # latin1Lower (d # cs))"

text \<open>
  Resolvers, as the mocks of the tests: two that answer, one that fails, and one whose
  answer has a letter outside ASCII: \<open>HTTP://EXAMPLE.com/\<close> with, for its first \<open>E\<close>,
  the capital E with an acute accent (U+00C9, the bytes 0xC3 0x89; the small letter is
  U+00E9, the bytes 0xC3 0xA9).
\<close>

definition exampleProvider :: ConfigProvider where
  "exampleProvider serviceName portType = Inr ''HTTP://Example.com/''"

definition otherProvider :: ConfigProvider where
  "otherProvider serviceName portType = Inr ''http://other.example.org''"

definition failingProvider :: ConfigProvider where
  "failingProvider serviceName portType = Inl ''no such service''"

definition accentedProvider :: ConfigProvider where
  "accentedProvider serviceName portType =
     Inr (''HTTP://'' @ [CHR 0xC3, CHR 0x89] @ ''XAMPLE.com/'')"

text \<open>
  The structs of the tests, without struct tags: \<open>{Name: "john", Age: 25}\<close>, the same
  with the second field unexported (\<open>{Name: "john", age: 25}\<close>, declared in package
  \<open>main\<close>), and \<open>Params{Param: "value"}\<close>. Then the struct of the test with its tags,
  \<open>query:"name"\<close> and \<open>query:"age"\<close>; a struct whose values and one of whose names need
  percent-encoding, \<open>{Search: "a b&c?", Name: "x", Active: true}\<close> with, for the \<open>N\<close>
  of its second field, the capital N with a tilde (U+00D1, the bytes 0xC3 0x91: an
  upper-case letter, so the field is exported; the small letter is U+00F1, the bytes
  0xC3 0xB1); and the struct of that one field.
\<close>

definition johnFields :: "StructField list" where
  "johnFields =
     [\<lparr>Name = ''Name'', PkgPath = [], TagQuery = [], FieldValue = GString ''john''\<rparr>,
      \<lparr>Name = ''Age'', PkgPath = [], TagQuery = [], FieldValue = GInt 25\<rparr>]"

definition unexportedFields :: "StructField list" where
  "unexportedFields =
     [\<lparr>Name = ''Name'', PkgPath = [], TagQuery = [], FieldValue = GString ''john''\<rparr>,
      \<lparr>Name = ''age'', PkgPath = ''main'', TagQuery = [], FieldValue = GInt 25\<rparr>]"

definition paramFields :: "StructField list" where
  "paramFields =
     [\<lparr>Name = ''Param'', PkgPath = [], TagQuery = [], FieldValue = GString ''value''\<rparr>]"

definition taggedFields :: "StructField list" where
  "taggedFields =
     [\<lparr>Name = ''Name'', PkgPath = [], TagQuery = ''name'', FieldValue = GString ''john''\<rparr>,
      \<lparr>Name = ''Age'', PkgPath = [], TagQuery = ''age'', FieldValue = GInt 25\<rparr>]"

definition escapedFields :: "StructField list" where
  "escapedFields =
     [\<lparr>Name = ''Search'', PkgPath = [], TagQuery = [], FieldValue = GString ''a b&c?''\<rparr>,
      \<lparr>Name = [CHR 0xC3, CHR 0x91] @ ''ame'', PkgPath = [], TagQuery = [],
         FieldValue = GString ''x''\<rparr>,
      \<lparr>Name = ''Active'', PkgPath = [], TagQuery = [], FieldValue = GBool True\<rparr>]"

definition accentedFields :: "StructField list" where
  "accentedFields =
     [\<lparr>Name = [CHR 0xC3, CHR 0x91] @ ''ame'', PkgPath = [], TagQuery = [],
         FieldValue = GString ''x''\<rparr>]"

text \<open>
  A modifier that sets one header, as the tests pass to \<open>GET\<close>, and a standard
  library for the examples: the body is its own JSON text, every URL parses to a host
  and a path without a query, and the transport answers with the request it was given.
\<close>

definition setHeader :: "string \<Rightarrow> string \<Rightarrow> modifier" where
  "setHeader key v req = Inr (req\<lparr>Header := Header_Set (Header req) key v\<rparr>)"

definition echoLib :: "(string, Request) Stdlib" where
  "echoLib =
     \<lparr>json_Marshal = (\<lambda>body. Inr body),
      url_Parse = (\<lambda>url. Inr \<lparr>Scheme = ''http'', Host = ''example.com'', Path = url, RawQuery = []\<rparr>),
      http_Do = (\<lambda>req. Inr req)\<rparr>"

definition exampleClient :: RestClient where
  "exampleClient = \<lparr>BaseURL = ''http://example.com'', resourceName = ''resource'', ready = True\<rparr>"

definition exampleRequest :: "string \<Rightarrow> Request" where
  "exampleRequest query =
     \<lparr>Method = ''GET'',
      URL = \<lparr>Scheme = ''http'', Host = ''example.com'', Path = ''/users'', RawQuery = query\<rparr>,
      Header = [], Body = None\<rparr>"

section \<open>Formatting and string lemmas\<close>

lemma Sprintf_v: "Sprintf ''%v'' [a] = fmtV a"
  by (simp add: printArg_def extraString_def)

lemma Sprintf_ss: "Sprintf ''%s%s'' [GString a, GString b] = a @ b"
  by (simp add: printArg_def extraString_def)

lemma Sprintf_service_error:
  "Sprintf ''Error getting service address for %s: %s'' [GString a, GString b]
     = ''Error getting service address for '' @ a @ '': '' @ b"
  by (simp add: printArg_def extraString_def)

lemma Sprintf_query_error:
  "Sprintf ''error creating query parameters: %s'' [GString a]
     = ''error creating query parameters: '' @ a"
  by (simp add: printArg_def extraString_def)

lemma TrimSuffix_slash:
  "TrimSuffix s ''/'' = (if s \<noteq> [] \<and> last s = CHR ''/'' then butlast s else s)"
proof (cases s rule: rev_cases)
  case Nil
  then show ?thesis by (simp add: TrimSuffix_def HasSuffix_def)
next
  case (snoc ys y)
  then show ?thesis by (auto simp add: TrimSuffix_def HasSuffix_def)
qed

lemma toLowerByte_not_upper: "(of_char c :: nat) < 128 \<Longrightarrow> \<not> isUpperByte (toLowerByte c)"
  by (auto simp add: toLowerByte_def isUpperByte_def)

lemma ToLower_ASCII: "isASCII s \<Longrightarrow> ToLower lower s = map toLowerByte s"
  by (simp add: ToLower_def)

lemma ToLower_other: "\<not> isASCII s \<Longrightarrow> ToLower lower s = lower s"
  by (simp add: ToLower_def)

lemma ToLower_no_upper:
  assumes "isASCII s" and "ch \<in> set (ToLower lower s)"
  shows "\<not> isUpperByte ch"
proof -
  from assms obtain c where c: "c \<in> set s" and ch: "ch = toLowerByte c"
    by (auto simp add: ToLower_def)
  from assms(1) c have "(of_char c :: nat) < 128"
    by (simp add: isASCII_def list_all_iff)
  with ch show ?thesis
    by (simp add: toLowerByte_not_upper)
qed

lemma isASCII_example: "isASCII ''HTTP://Example.com/''"
  by code_simp

lemma ToLower_example: "ToLower lower ''HTTP://Example.com/'' = ''http://example.com/''"
  unfolding ToLower_ASCII [OF isASCII_example] by code_simp

lemma ToLower_accented:
  "ToLower latin1Lower (''HTTP://'' @ [CHR 0xC3, CHR 0x89] @ ''XAMPLE.com/'')
     = ''http://'' @ [CHR 0xC3, CHR 0xA9] @ ''xample.com/''"
  by code_simp

section \<open>Initialization of the client\<close>

lemma init_ready:
  "ready c \<Longrightarrow> init lower c provider = (Some ''Client already initialized'', c)"
  by (simp add: init_def)

lemma init_ok:
  "\<not> ready c \<Longrightarrow> provider (resourceName c) serviceType = Inr service \<Longrightarrow>
     init lower c provider = (None, c\<lparr>BaseURL := TrimSuffix (ToLower lower service) ''/'', ready := True\<rparr>)"
  by (simp add: init_def)

lemma init_err:
  "\<not> ready c \<Longrightarrow> provider (resourceName c) serviceType = Inl err \<Longrightarrow>
     init lower c provider =
       (Some (''Error getting service address for '' @ resourceName c @ '': '' @ err), c)"
  by (simp add: init_def Sprintf_service_error del: Sprintf.simps)

lemma init_None_iff:
  "fst (init lower c provider) = None \<longleftrightarrow>
     \<not> ready c \<and> (\<exists>service. provider (resourceName c) serviceType = Inr service)"
  by (cases "provider (resourceName c) serviceType") (simp_all add: init_def)

lemma init_example:
  "init lower (fst (NewRestClient lower ''resource'' False)) exampleProvider
     = (None, \<lparr>BaseURL = ''http://example.com'', resourceName = ''resource'', ready = True\<rparr>)"
  by (simp add: init_def NewRestClient_def exampleProvider_def ToLower_example TrimSuffix_slash)

lemma init_accented:
  "init latin1Lower (fst (NewRestClient latin1Lower ''resource'' False)) accentedProvider
     = (None, \<lparr>BaseURL = ''http://'' @ [CHR 0xC3, CHR 0xA9] @ ''xample.com'',
               resourceName = ''resource'', ready = True\<rparr>)"
  by code_simp

text \<open>
  Claim C2. The ready flag goes from false to true at most once. On a client that is
  ready, \<open>init\<close> panics with "Client already initialized" and leaves the client as it
  was, whatever the resolver is, and so do \<open>WithConfigProvider\<close> and the callback that
  \<open>NewRestClient\<close> registers with \<open>autoInit\<close>. An \<open>init\<close> that returns normally started
  from a client that was not ready and leaves it ready, so a further \<open>init\<close> with any
  resolver panics; and no \<open>init\<close> makes a ready client not ready.
\<close>

theorem ready_transitions_once:
  "(ready c \<longrightarrow>
      init lower c provider = (Some ''Client already initialized'', c)
      \<and> WithConfigProvider lower c provider = (Some ''Client already initialized'', c)
      \<and> (\<forall>callback. snd (NewRestClient lower name True) = Some callback \<longrightarrow>
            callback provider c = (Some ''Client already initialized'', c)))
   \<and> (fst (init lower c0 provider0) = None \<longrightarrow>
        \<not> ready c0 \<and> ready (snd (init lower c0 provider0))
        \<and> init lower (snd (init lower c0 provider0)) provider
            = (Some ''Client already initialized'', snd (init lower c0 provider0)))
   \<and> (ready c0 \<longrightarrow> ready (snd (init lower c0 provider0)))"
proof (intro conjI impI)
  assume r: "ready c"
  then show "init lower c provider = (Some ''Client already initialized'', c)"
    by (rule init_ready)
  from r show "WithConfigProvider lower c provider = (Some ''Client already initialized'', c)"
    by (simp add: WithConfigProvider_def init_ready)
  from r show "\<forall>callback. snd (NewRestClient lower name True) = Some callback \<longrightarrow>
            callback provider c = (Some ''Client already initialized'', c)"
    by (auto simp add: NewRestClient_def init_ready)
next
  assume ok: "fst (init lower c0 provider0) = None"
  then obtain service where nr: "\<not> ready c0"
      and sv: "provider0 (resourceName c0) serviceType = Inr service"
    by (auto simp add: init_None_iff)
  from nr show "\<not> ready c0" .
  from nr sv show r': "ready (snd (init lower c0 provider0))"
    by (simp add: init_ok)
  from r' show "init lower (snd (init lower c0 provider0)) provider
            = (Some ''Client already initialized'', snd (init lower c0 provider0))"
    by (rule init_ready)
next
  assume "ready c0"
  then show "ready (snd (init lower c0 provider0))"
    by (simp add: init_ready)
qed

theorem ready_transitions_once_witness:
  "init latin1Lower
       (snd (init latin1Lower (fst (NewRestClient latin1Lower ''resource'' False)) exampleProvider))
       otherProvider
     = (Some ''Client already initialized'',
        \<lparr>BaseURL = ''http://example.com'', resourceName = ''resource'', ready = True\<rparr>)
   \<and> WithConfigProvider latin1Lower
        \<lparr>BaseURL = ''http://example.com'', resourceName = ''resource'', ready = True\<rparr> exampleProvider
     = (Some ''Client already initialized'',
        \<lparr>BaseURL = ''http://example.com'', resourceName = ''resource'', ready = True\<rparr>)"
  using ready_transitions_once [where lower = latin1Lower
      and c = "\<lparr>BaseURL = ''http://example.com'', resourceName = ''resource'', ready = True\<rparr>"
      and provider = exampleProvider and name = "''resource''"
      and ?c0.0 = "fst (NewRestClient latin1Lower ''resource'' False)"
      and ?provider0.0 = exampleProvider]
    ready_transitions_once [where lower = latin1Lower
      and c = "\<lparr>BaseURL = ''http://example.com'', resourceName = ''resource'', ready = True\<rparr>"
      and provider = otherProvider and name = "''resource''"
      and ?c0.0 = "fst (NewRestClient latin1Lower ''resource'' False)"
      and ?provider0.0 = exampleProvider]
  by (simp add: init_example)

text \<open>
  Claim C3. When the client is not ready and the resolver returns an address, whatever
  the address is, \<open>init\<close> (and so \<open>WithConfigProvider\<close>) returns normally and sets the
  base URL to \<open>strings.ToLower\<close> of the address without one trailing slash. On an ASCII
  address the lowered address is the address with \<open>A\<close>..\<open>Z\<close> mapped to \<open>a\<close>..\<open>z\<close>, and
  no upper-case letter is left in the base URL; on any other address it is what the
  Unicode case mapping gives. A new client has the empty base URL, and a resolver that
  returns \<open>HTTP://Example.com/\<close> gives the base URL \<open>http://example.com\<close>. With the case
  mapping of the examples, the address \<open>HTTP://EXAMPLE.com/\<close> whose first \<open>E\<close> carries an
  acute accent gives \<open>http://example.com\<close> with the accented small letter.
\<close>

theorem init_sets_base_url:
  "(\<not> ready c \<and> provider (resourceName c) serviceType = Inr service \<longrightarrow>
      init lower c provider =
        (None, c\<lparr>BaseURL := (if ToLower lower service \<noteq> [] \<and> last (ToLower lower service) = CHR ''/''
                               then butlast (ToLower lower service) else ToLower lower service),
                  ready := True\<rparr>)
      \<and> WithConfigProvider lower c provider = init lower c provider
      \<and> (isASCII service \<longrightarrow>
            ToLower lower service = map toLowerByte service
            \<and> (\<forall>ch \<in> set (BaseURL (snd (init lower c provider))). \<not> isUpperByte ch))
      \<and> (\<not> isASCII service \<longrightarrow> ToLower lower service = lower service))
   \<and> BaseURL (fst (NewRestClient lower name autoInit)) = []
   \<and> BaseURL (snd (WithConfigProvider lower (fst (NewRestClient lower ''resource'' False))
                     (\<lambda>serviceName portType. Inr ''HTTP://Example.com/'')))
       = ''http://example.com''
   \<and> BaseURL (snd (WithConfigProvider latin1Lower (fst (NewRestClient latin1Lower ''resource'' False))
                     (\<lambda>serviceName portType.
                        Inr (''HTTP://'' @ [CHR 0xC3, CHR 0x89] @ ''XAMPLE.com/''))))
       = ''http://'' @ [CHR 0xC3, CHR 0xA9] @ ''xample.com''"
proof (intro conjI impI)
  assume a: "\<not> ready c \<and> provider (resourceName c) serviceType = Inr service"
  then have eq: "init lower c provider =
      (None, c\<lparr>BaseURL := TrimSuffix (ToLower lower service) ''/'', ready := True\<rparr>)"
    by (simp add: init_ok)
  then show "init lower c provider =
        (None, c\<lparr>BaseURL := (if ToLower lower service \<noteq> [] \<and> last (ToLower lower service) = CHR ''/''
                               then butlast (ToLower lower service) else ToLower lower service),
                  ready := True\<rparr>)"
    by (simp only: TrimSuffix_slash)
  show "WithConfigProvider lower c provider = init lower c provider"
    by (simp add: WithConfigProvider_def)
  {
    assume ascii: "isASCII service"
    then show "ToLower lower service = map toLowerByte service"
      by (rule ToLower_ASCII)
    show "\<forall>ch \<in> set (BaseURL (snd (init lower c provider))). \<not> isUpperByte ch"
    proof
      fix ch
      assume "ch \<in> set (BaseURL (snd (init lower c provider)))"
      then have "ch \<in> set (TrimSuffix (ToLower lower service) ''/'')"
        by (simp add: eq)
      then have "ch \<in> set (ToLower lower service)"
        by (auto simp add: TrimSuffix_slash dest: in_set_butlastD split: if_splits)
      with ascii show "\<not> isUpperByte ch"
        using ToLower_no_upper [of service ch lower] by simp
    qed
  }
  {
    assume "\<not> isASCII service"
    then show "ToLower lower service = lower service"
      by (rule ToLower_other)
  }
next
  show "BaseURL (fst (NewRestClient lower name autoInit)) = []"
    by (simp add: NewRestClient_def)
next
  show "BaseURL (snd (WithConfigProvider lower (fst (NewRestClient lower ''resource'' False))
                     (\<lambda>serviceName portType. Inr ''HTTP://Example.com/'')))
       = ''http://example.com''"
    by (simp add: WithConfigProvider_def init_def NewRestClient_def ToLower_example TrimSuffix_slash)
next
  show "BaseURL (snd (WithConfigProvider latin1Lower (fst (NewRestClient latin1Lower ''resource'' False))
                     (\<lambda>serviceName portType.
                        Inr (''HTTP://'' @ [CHR 0xC3, CHR 0x89] @ ''XAMPLE.com/''))))
       = ''http://'' @ [CHR 0xC3, CHR 0xA9] @ ''xample.com''"
    by code_simp
qed

theorem init_sets_base_url_witness:
  "init latin1Lower (fst (NewRestClient latin1Lower ''resource'' False)) exampleProvider
     = (None, \<lparr>BaseURL = ''http://example.com'', resourceName = ''resource'', ready = True\<rparr>)
   \<and> \<not> isUpperByte (hd (BaseURL (snd (init latin1Lower
                                            (fst (NewRestClient latin1Lower ''resource'' False))
                                            exampleProvider))))
   \<and> init latin1Lower (fst (NewRestClient latin1Lower ''resource'' False)) accentedProvider
     = (None, \<lparr>BaseURL = ''http://'' @ [CHR 0xC3, CHR 0xA9] @ ''xample.com'',
               resourceName = ''resource'', ready = True\<rparr>)"
  using init_sets_base_url [where lower = latin1Lower
      and c = "fst (NewRestClient latin1Lower ''resource'' False)" and provider = exampleProvider
      and service = "''HTTP://Example.com/''" and name = "''resource''" and autoInit = False]
    init_sets_base_url [where lower = latin1Lower
      and c = "fst (NewRestClient latin1Lower ''resource'' False)" and provider = accentedProvider
      and service = "''HTTP://'' @ [CHR 0xC3, CHR 0x89] @ ''XAMPLE.com/''"
      and name = "''resource''" and autoInit = False]
  by (simp add: init_example init_accented isUpperByte_def)

text \<open>
  Claim C7. \<open>init\<close> asks the resolver for the client's resource name and the port type
  \<open>rest\<close>, and for nothing else: two resolvers that agree there give the same result.
  When the client is not ready and the resolver returns an error, \<open>init\<close> panics with
  a message made of the resource name and the error; nothing is returned to the caller
  (\<open>WithConfigProvider\<close> is the same panic) and the client stays not ready.
\<close>

theorem resolver_error_is_fatal:
  "serviceType = ''rest''
   \<and> (\<not> ready c \<and> provider (resourceName c) ''rest'' = Inl err \<longrightarrow>
        init lower c provider =
          (Some (''Error getting service address for '' @ resourceName c @ '': '' @ err), c)
        \<and> \<not> ready (snd (init lower c provider))
        \<and> WithConfigProvider lower c provider = init lower c provider)
   \<and> (provider (resourceName c) ''rest'' = provider' (resourceName c) ''rest'' \<longrightarrow>
        init lower c provider = init lower c provider')"
proof (intro conjI impI)
  show st: "serviceType = ''rest''"
    by (simp add: serviceType_def)
  {
    assume a: "\<not> ready c \<and> provider (resourceName c) ''rest'' = Inl err"
    then show e: "init lower c provider =
          (Some (''Error getting service address for '' @ resourceName c @ '': '' @ err), c)"
      by (simp add: init_err st)
    from a e show "\<not> ready (snd (init lower c provider))"
      by simp
    show "WithConfigProvider lower c provider = init lower c provider"
      by (simp add: WithConfigProvider_def)
  }
  {
    assume "provider (resourceName c) ''rest'' = provider' (resourceName c) ''rest''"
    then show "init lower c provider = init lower c provider'"
      by (simp add: init_def st)
  }
qed

theorem resolver_error_is_fatal_witness:
  "init latin1Lower (fst (NewRestClient latin1Lower ''resource'' False)) failingProvider
     = (Some ''Error getting service address for resource: no such service'',
        \<lparr>BaseURL = [], resourceName = ''resource'', ready = False\<rparr>)"
  using resolver_error_is_fatal [where lower = latin1Lower
      and c = "fst (NewRestClient latin1Lower ''resource'' False)" and provider = failingProvider
      and err = "''no such service''" and provider' = failingProvider]
  by (simp add: NewRestClient_def failingProvider_def)

section \<open>\<open>ResolveURL\<close>\<close>

text \<open>
  Claim C8. \<open>ResolveURL\<close> returns the base URL followed by the formatted path. It does
  not look at the ready flag, so on a new client, whose base URL is empty, the result
  is the formatted path alone.
\<close>

theorem ResolveURL_concat:
  "ResolveURL c path args = BaseURL c @ Sprintf path args
   \<and> ResolveURL (c\<lparr>ready := r\<rparr>) path args = ResolveURL c path args
   \<and> ResolveURL (fst (NewRestClient lower name autoInit)) path args = Sprintf path args
   \<and> ResolveURL \<lparr>BaseURL = ''http://example.com'', resourceName = ''resource'', ready = True\<rparr>
        ''/api/v1/users/%s/posts/%d'' [GString ''u1'', GInt 42]
       = ''http://example.com/api/v1/users/u1/posts/42''"
proof -
  have 1: "\<And>c. ResolveURL c path args = BaseURL c @ Sprintf path args"
    unfolding ResolveURL_def by (rule Sprintf_ss)
  have 2: "Sprintf ''/api/v1/users/%s/posts/%d'' [GString ''u1'', GInt 42]
             = ''/api/v1/users/u1/posts/42''"
    by code_simp
  have 3: "ResolveURL \<lparr>BaseURL = ''http://example.com'', resourceName = ''resource'', ready = True\<rparr>
        ''/api/v1/users/%s/posts/%d'' [GString ''u1'', GInt 42]
       = ''http://example.com/api/v1/users/u1/posts/42''"
    unfolding ResolveURL_def Sprintf_ss 2 by simp
  show ?thesis
    using 3 by (simp add: 1 NewRestClient_def)
qed

section \<open>\<open>StructToQueryParams\<close>: the kinds of input\<close>

lemma addFields_unexported:
  "f \<in> set fs \<Longrightarrow> \<not> IsExported f \<Longrightarrow> addFields lower fs q = Inl unexportedPanic"
  by (induction fs arbitrary: q) (auto simp add: Let_def)

lemma StructToQueryParams_struct:
  "StructToQueryParams lower (GStruct fs) =
     (case addFields lower fs [] of
        Inl p \<Rightarrow> Inl p
      | Inr queryParams \<Rightarrow> Inr (Values_Encode queryParams, None))"
  by (simp add: StructToQueryParams_def)

lemma StructToQueryParams_ptr:
  "StructToQueryParams lower (GPtr (Some v)) =
     (case v of
        GStruct fs \<Rightarrow> StructToQueryParams lower (GStruct fs)
      | _ \<Rightarrow> Inr ([], Some InvalidInputKind))"
  by (cases v) (simp_all add: StructToQueryParams_def)

lemma StructToQueryParams_scalar:
  "StructToQueryParams lower (GScalar s) = Inr ([], Some InvalidInputKind)"
  by (cases s) (simp_all add: StructToQueryParams_def)

lemma StructToQueryParams_nil:
  "StructToQueryParams lower GNil = Inr ([], Some InvalidInputKind)"
  "StructToQueryParams lower (GPtr None) = Inr ([], Some InvalidInputKind)"
  by (simp_all add: StructToQueryParams_def)

lemma StructToQueryParams_john:
  "StructToQueryParams lower (GStruct johnFields) = Inr (''age=25&name=john'', None)"
  by code_simp

lemma StructToQueryParams_param:
  "StructToQueryParams lower (GStruct paramFields) = Inr (''param=value'', None)"
  by code_simp

text \<open>
  Claim C4, as amended. For every input that is neither a struct nor a non-nil pointer
  to a struct (the nil interface, a scalar, a nil pointer, a pointer to anything but a
  struct), \<open>StructToQueryParams\<close> returns the empty string and the error
  "input data must be a struct", which the specification calls \<open>InvalidInputKind\<close>.
\<close>

theorem non_struct_rejected:
  "KindOf v \<noteq> Struct \<and> (\<forall>fs. v \<noteq> GPtr (Some (GStruct fs))) \<longrightarrow>
     StructToQueryParams lower v = Inr ([], Some InvalidInputKind)"
proof
  assume a: "KindOf v \<noteq> Struct \<and> (\<forall>fs. v \<noteq> GPtr (Some (GStruct fs)))"
  show "StructToQueryParams lower v = Inr ([], Some InvalidInputKind)"
  proof (cases v)
    case GNil
    then show ?thesis by (simp add: StructToQueryParams_nil)
  next
    case (GScalar s)
    then show ?thesis by (simp add: StructToQueryParams_scalar)
  next
    case (GStruct fs)
    with a show ?thesis by simp
  next
    case (GPtr p)
    show ?thesis
    proof (cases p)
      case None
      with GPtr show ?thesis by (simp add: StructToQueryParams_nil)
    next
      case (Some w)
      with GPtr a have "\<forall>fs. w \<noteq> GStruct fs" by simp
      with GPtr Some show ?thesis
        by (cases w) (simp_all add: StructToQueryParams_ptr)
    qed
  qed
qed

theorem non_struct_rejected_witness:
  "StructToQueryParams latin1Lower (GScalar (GString ''not a struct''))
     = Inr ([], Some InvalidInputKind)
   \<and> StructToQueryParams latin1Lower (GScalar (GInt 7)) = Inr ([], Some InvalidInputKind)
   \<and> StructToQueryParams latin1Lower (GPtr (Some (GScalar (GString ''test''))))
     = Inr ([], Some InvalidInputKind)"
  using non_struct_rejected [where v = "GScalar (GString ''not a struct'')" and lower = latin1Lower]
    non_struct_rejected [where v = "GScalar (GInt 7)" and lower = latin1Lower]
    non_struct_rejected [where v = "GPtr (Some (GScalar (GString ''test'')))" and lower = latin1Lower]
  by simp

text \<open>
  Claim C4 as stated fails: a pointer to a struct is not a struct (its kind is \<open>Ptr\<close>),
  and \<open>StructToQueryParams\<close> encodes it without an error.
\<close>

theorem pointer_to_struct_accepted_counterexample:
  "KindOf (GPtr (Some (GStruct johnFields))) \<noteq> Struct
   \<and> StructToQueryParams latin1Lower (GPtr (Some (GStruct johnFields)))
     = Inr (''age=25&name=john'', None)
   \<and> StructToQueryParams latin1Lower (GPtr (Some (GStruct johnFields)))
     \<noteq> Inr ([], Some InvalidInputKind)"
  by (simp add: StructToQueryParams_ptr StructToQueryParams_john)

section \<open>The verbs with a body\<close>

lemma applyModifiers_append:
  "applyModifiers (ms1 @ ms2) req =
     (case applyModifiers ms1 req of Inl p \<Rightarrow> Inl p | Inr req' \<Rightarrow> applyModifiers ms2 req')"
  by (induction ms1 arbitrary: req) (simp_all split: sum.splits)

lemma Header_Get_Set: "Header_Get (Header_Set h key v) key = v"
  by (induction h key v rule: Header_Set.induct) (simp_all add: Header_Get_def)

lemma Header_Get_Set_other:
  "key' \<noteq> key \<Longrightarrow> Header_Get (Header_Set h key v) key' = Header_Get h key'"
  by (induction h key v rule: Header_Set.induct) (simp_all add: Header_Get_def)

lemma applyModifiers_setHeader_last:
  "applyModifiers (ms @ [setHeader key v]) req =
     (case applyModifiers ms req of
        Inl p \<Rightarrow> Inl p
      | Inr req' \<Rightarrow> Inr (req'\<lparr>Header := Header_Set (Header req') key v\<rparr>))"
  by (simp add: applyModifiers_append setHeader_def split: sum.splits)

lemma POST_eq:
  "json_Marshal lib body = Inr bodyData \<Longrightarrow> url_Parse lib url = Inr u \<Longrightarrow>
     POST lib c url body ms =
       (case applyModifiers ms
               \<lparr>Method = ''POST'', URL = u,
                  Header = [(''Content-Type'', [''application/json''])], Body = Some bodyData\<rparr> of
          Inl p \<Rightarrow> Inl p
        | Inr req \<Rightarrow> Inr (http_Do lib req))"
  by (simp add: POST_def NewRequest_def)

lemma PUT_eq:
  "json_Marshal lib body = Inr bodyData \<Longrightarrow> url_Parse lib url = Inr u \<Longrightarrow>
     PUT lib c url body ms =
       (case applyModifiers ms
               \<lparr>Method = ''PUT'', URL = u,
                  Header = [(''Content-Type'', [''application/json''])], Body = Some bodyData\<rparr> of
          Inl p \<Rightarrow> Inl p
        | Inr req \<Rightarrow> Inr (http_Do lib req))"
  by (simp add: PUT_def NewRequest_def)

lemma PATCH_eq:
  "json_Marshal lib body = Inr bodyData \<Longrightarrow> url_Parse lib url = Inr u \<Longrightarrow>
     PATCH lib c url body ms =
       (case applyModifiers ms
               \<lparr>Method = ''PATCH'', URL = u,
                  Header = [(''Content-Type'', [''application/json''])], Body = Some bodyData\<rparr> of
          Inl p \<Rightarrow> Inl p
        | Inr req \<Rightarrow> Inr (http_Do lib req))"
  by (simp add: PATCH_def NewRequest_def)

text \<open>
  Claim C6. When the body marshals and the URL parses, \<open>POST\<close>, \<open>PUT\<close> and \<open>PATCH\<close>
  build the request with the header \<open>Content-Type: application/json\<close> and only then
  run the modifiers: the first modifier receives the request with that header, the
  modifiers run in the order given (a list of modifiers followed by another is the one
  run after the other, a panic stopping the call), and the transport receives the
  request they return. So a modifier that sets \<open>Content-Type\<close> last replaces the
  default on the request that is sent.
\<close>

theorem content_type_before_modifiers:
  "(json_Marshal lib body = Inr bodyData \<and> url_Parse lib url = Inr u \<and>
    httpMethod \<in> {''POST'', ''PUT'', ''PATCH''} \<longrightarrow>
      (let verb = (if httpMethod = ''POST'' then POST else if httpMethod = ''PUT'' then PUT else PATCH);
           req0 = \<lparr>Method = httpMethod, URL = u,
                    Header = [(''Content-Type'', [''application/json''])], Body = Some bodyData\<rparr>
       in Header_Get (Header req0) ''Content-Type'' = ''application/json''
          \<and> verb lib c url body [] = Inr (http_Do lib req0)
          \<and> verb lib c url body (modifier # requestModifier) =
              (case modifier req0 of
                 Inl p \<Rightarrow> Inl p
               | Inr req1 \<Rightarrow>
                   (case applyModifiers requestModifier req1 of
                      Inl p \<Rightarrow> Inl p
                    | Inr req \<Rightarrow> Inr (http_Do lib req)))
          \<and> verb lib c url body (requestModifier @ [setHeader ''Content-Type'' v]) =
              (case applyModifiers requestModifier req0 of
                 Inl p \<Rightarrow> Inl p
               | Inr req \<Rightarrow> Inr (http_Do lib (req\<lparr>Header := Header_Set (Header req) ''Content-Type'' v\<rparr>)))))
   \<and> applyModifiers (ms1 @ ms2) req =
       (case applyModifiers ms1 req of Inl p \<Rightarrow> Inl p | Inr req' \<Rightarrow> applyModifiers ms2 req')
   \<and> Header_Get (Header_Set h ''Content-Type'' v) ''Content-Type'' = v"
proof (intro conjI impI)
  assume a: "json_Marshal lib body = Inr bodyData \<and> url_Parse lib url = Inr u \<and>
    httpMethod \<in> {''POST'', ''PUT'', ''PATCH''}"
  then consider "httpMethod = ''POST''" | "httpMethod = ''PUT''" | "httpMethod = ''PATCH''"
    by auto
  then show "let verb = (if httpMethod = ''POST'' then POST else if httpMethod = ''PUT'' then PUT else PATCH);
           req0 = \<lparr>Method = httpMethod, URL = u,
                    Header = [(''Content-Type'', [''application/json''])], Body = Some bodyData\<rparr>
       in Header_Get (Header req0) ''Content-Type'' = ''application/json''
          \<and> verb lib c url body [] = Inr (http_Do lib req0)
          \<and> verb lib c url body (modifier # requestModifier) =
              (case modifier req0 of
                 Inl p \<Rightarrow> Inl p
               | Inr req1 \<Rightarrow>
                   (case applyModifiers requestModifier req1 of
                      Inl p \<Rightarrow> Inl p
                    | Inr req \<Rightarrow> Inr (http_Do lib req)))
          \<and> verb lib c url body (requestModifier @ [setHeader ''Content-Type'' v]) =
              (case applyModifiers requestModifier req0 of
                 Inl p \<Rightarrow> Inl p
               | Inr req \<Rightarrow> Inr (http_Do lib (req\<lparr>Header := Header_Set (Header req) ''Content-Type'' v\<rparr>)))"
  proof cases
    case 1
    with a show ?thesis
      by (simp add: POST_eq applyModifiers_setHeader_last Header_Get_def split: sum.splits)
  next
    case 2
    with a show ?thesis
      by (simp add: PUT_eq applyModifiers_setHeader_last Header_Get_def split: sum.splits)
  next
    case 3
    with a show ?thesis
      by (simp add: PATCH_eq applyModifiers_setHeader_last Header_Get_def split: sum.splits)
  qed
next
  show "applyModifiers (ms1 @ ms2) req =
       (case applyModifiers ms1 req of Inl p \<Rightarrow> Inl p | Inr req' \<Rightarrow> applyModifiers ms2 req')"
    by (rule applyModifiers_append)
next
  show "Header_Get (Header_Set h ''Content-Type'' v) ''Content-Type'' = v"
    by (rule Header_Get_Set)
qed

theorem content_type_before_modifiers_witness:
  "POST echoLib exampleClient ''/users'' ''{}'' [setHeader ''Authorization'' ''Bearer token'', setHeader ''Content-Type'' ''text/plain'']
     = Inr (Inr \<lparr>Method = ''POST'',
                  URL = \<lparr>Scheme = ''http'', Host = ''example.com'', Path = ''/users'', RawQuery = []\<rparr>,
                  Header = [(''Content-Type'', [''text/plain'']), (''Authorization'', [''Bearer token''])],
                  Body = Some ''{}''\<rparr>)"
proof -
  have m: "json_Marshal echoLib ''{}'' = Inr ''{}''"
    by (simp add: echoLib_def)
  have p: "url_Parse echoLib ''/users'' =
      Inr \<lparr>Scheme = ''http'', Host = ''example.com'', Path = ''/users'', RawQuery = []\<rparr>"
    by (simp add: echoLib_def)
  have d: "http_Do echoLib r = Inr r" for r
    by (simp add: echoLib_def)
  have "POST echoLib exampleClient ''/users'' ''{}''
          ([setHeader ''Authorization'' ''Bearer token''] @ [setHeader ''Content-Type'' ''text/plain''])
        = (case applyModifiers [setHeader ''Authorization'' ''Bearer token'']
                  \<lparr>Method = ''POST'',
                     URL = \<lparr>Scheme = ''http'', Host = ''example.com'', Path = ''/users'', RawQuery = []\<rparr>,
                     Header = [(''Content-Type'', [''application/json''])], Body = Some ''{}''\<rparr> of
             Inl p \<Rightarrow> Inl p
           | Inr req \<Rightarrow>
               Inr (http_Do echoLib (req\<lparr>Header := Header_Set (Header req) ''Content-Type'' ''text/plain''\<rparr>)))"
    using content_type_before_modifiers [where lib = echoLib and body = "''{}''"
        and bodyData = "''{}''" and url = "''/users''"
        and u = "\<lparr>Scheme = ''http'', Host = ''example.com'', Path = ''/users'', RawQuery = []\<rparr>"
        and httpMethod = "''POST''" and c = exampleClient
        and requestModifier = "[setHeader ''Authorization'' ''Bearer token'']"
        and v = "''text/plain''"] m p
    by (simp only: Let_def) simp
  then show ?thesis
    by (simp add: setHeader_def d)
qed

section \<open>\<open>QueryParameterRequestModifier\<close>\<close>

lemma query_param_value:
  "Values_Get (parseQuery [] ''param=value'') ''param'' = ''value''"
  by code_simp

lemma query_malformed:
  "Values_Get (parseQuery [] ''a=1param=value'') ''param'' = []"
  "Values_Get (parseQuery [] ''a=1param=value'') ''a'' = ''1param=value''"
  by code_simp+

lemma QueryParameterRequestModifier_ok:
  "StructToQueryParams lower data = Inr (params, None) \<Longrightarrow>
     QueryParameterRequestModifier lower data req =
       Inr (req\<lparr>URL := (URL req)\<lparr>RawQuery := RawQuery (URL req) @ params\<rparr>\<rparr>)"
  by (simp add: QueryParameterRequestModifier_def)

text \<open>
  Claim C5. Whenever \<open>StructToQueryParams\<close> encodes the data, the modifier of
  \<open>QueryParameterRequestModifier\<close> returns the request with the encoding appended to
  the raw query of its URL, by concatenation, and changes nothing else. With
  \<open>Params{Param: "value"}\<close> and an empty raw query the parameter \<open>param\<close> of the
  result reads \<open>value\<close>; with the raw query \<open>a=1\<close> the result is \<open>a=1param=value\<close>,
  without a separator, where \<open>param\<close> is absent and \<open>a\<close> reads \<open>1param=value\<close>.
  Through \<open>GET\<close> the request that is sent carries the appended query, and data that
  cannot be encoded is a panic.
\<close>

theorem query_modifier_appends:
  "(StructToQueryParams lower data = Inr (params, None) \<longrightarrow>
      QueryParameterRequestModifier lower data req =
        Inr (req\<lparr>URL := (URL req)\<lparr>RawQuery := RawQuery (URL req) @ params\<rparr>\<rparr>))
   \<and> (RawQuery (URL req) = [] \<longrightarrow>
        (\<exists>req'. QueryParameterRequestModifier lower (GStruct paramFields) req = Inr req'
           \<and> RawQuery (URL req') = ''param=value''
           \<and> Values_Get (URL_Query (URL req')) ''param'' = ''value''))
   \<and> (RawQuery (URL req) = ''a=1'' \<longrightarrow>
        (\<exists>req'. QueryParameterRequestModifier lower (GStruct paramFields) req = Inr req'
           \<and> RawQuery (URL req') = ''a=1param=value''
           \<and> Values_Get (URL_Query (URL req')) ''param'' = []
           \<and> Values_Get (URL_Query (URL req')) ''a'' = ''1param=value''))
   \<and> (url_Parse lib url = Inr u \<longrightarrow>
        GET lib c url [QueryParameterRequestModifier lower data] =
          (case StructToQueryParams lower data of
             Inl p \<Rightarrow> Inl p
           | Inr (params, Some err) \<Rightarrow> Inl (''error creating query parameters: '' @ err)
           | Inr (params, None) \<Rightarrow>
               Inr (http_Do lib \<lparr>Method = ''GET'', URL = u\<lparr>RawQuery := RawQuery u @ params\<rparr>,
                                  Header = [], Body = None\<rparr>)))"
proof (intro conjI impI)
  assume "StructToQueryParams lower data = Inr (params, None)"
  then show "QueryParameterRequestModifier lower data req =
        Inr (req\<lparr>URL := (URL req)\<lparr>RawQuery := RawQuery (URL req) @ params\<rparr>\<rparr>)"
    by (rule QueryParameterRequestModifier_ok)
next
  assume "RawQuery (URL req) = []"
  then show "\<exists>req'. QueryParameterRequestModifier lower (GStruct paramFields) req = Inr req'
           \<and> RawQuery (URL req') = ''param=value''
           \<and> Values_Get (URL_Query (URL req')) ''param'' = ''value''"
    by (simp add: QueryParameterRequestModifier_ok [OF StructToQueryParams_param]
        URL_Query_def query_param_value)
next
  assume "RawQuery (URL req) = ''a=1''"
  then show "\<exists>req'. QueryParameterRequestModifier lower (GStruct paramFields) req = Inr req'
           \<and> RawQuery (URL req') = ''a=1param=value''
           \<and> Values_Get (URL_Query (URL req')) ''param'' = []
           \<and> Values_Get (URL_Query (URL req')) ''a'' = ''1param=value''"
    by (simp add: QueryParameterRequestModifier_ok [OF StructToQueryParams_param]
        URL_Query_def query_malformed)
next
  assume "url_Parse lib url = Inr u"
  then show "GET lib c url [QueryParameterRequestModifier lower data] =
          (case StructToQueryParams lower data of
             Inl p \<Rightarrow> Inl p
           | Inr (params, Some err) \<Rightarrow> Inl (''error creating query parameters: '' @ err)
           | Inr (params, None) \<Rightarrow>
               Inr (http_Do lib \<lparr>Method = ''GET'', URL = u\<lparr>RawQuery := RawQuery u @ params\<rparr>,
                                  Header = [], Body = None\<rparr>))"
    by (simp add: GET_def bodyless_def NewRequest_def QueryParameterRequestModifier_def
        Sprintf_query_error del: Sprintf.simps split: sum.splits prod.splits option.splits)
qed

theorem query_modifier_appends_witness:
  "QueryParameterRequestModifier latin1Lower (GStruct paramFields) (exampleRequest [])
     = Inr (exampleRequest ''param=value'')
   \<and> QueryParameterRequestModifier latin1Lower (GStruct paramFields) (exampleRequest ''a=1'')
     = Inr (exampleRequest ''a=1param=value'')
   \<and> GET echoLib exampleClient ''/users''
         [QueryParameterRequestModifier latin1Lower (GStruct paramFields)]
     = Inr (Inr (exampleRequest ''param=value''))"
proof -
  have p: "url_Parse echoLib ''/users'' =
      Inr \<lparr>Scheme = ''http'', Host = ''example.com'', Path = ''/users'', RawQuery = []\<rparr>"
    by (simp add: echoLib_def)
  have d: "http_Do echoLib r = Inr r" for r
    by (simp add: echoLib_def)
  note t = query_modifier_appends [where lower = latin1Lower and data = "GStruct paramFields"
      and params = "''param=value''" and lib = echoLib and url = "''/users''" and c = exampleClient
      and u = "\<lparr>Scheme = ''http'', Host = ''example.com'', Path = ''/users'', RawQuery = []\<rparr>"]
  have 1: "QueryParameterRequestModifier latin1Lower (GStruct paramFields) (exampleRequest [])
     = Inr (exampleRequest ''param=value'')"
    using t [where req = "exampleRequest []"] StructToQueryParams_param [of latin1Lower]
    by (simp add: exampleRequest_def)
  have 2: "QueryParameterRequestModifier latin1Lower (GStruct paramFields) (exampleRequest ''a=1'')
     = Inr (exampleRequest ''a=1param=value'')"
    using t [where req = "exampleRequest ''a=1''"] StructToQueryParams_param [of latin1Lower]
    by (simp add: exampleRequest_def)
  have 3: "GET echoLib exampleClient ''/users''
         [QueryParameterRequestModifier latin1Lower (GStruct paramFields)]
     = Inr (Inr (exampleRequest ''param=value''))"
    using t [where req = "exampleRequest []"] p
    by (simp add: StructToQueryParams_param d exampleRequest_def)
  from 1 2 3 show ?thesis
    by simp
qed

section \<open>\<open>StructToQueryParams\<close>: the query string\<close>

subsection \<open>The loop builds the values field by field\<close>

lemma addAll_Nil [simp]: "addAll m [] = m"
  by (simp add: addAll_def)

lemma addAll_Cons [simp]: "addAll m ((k, v) # ps) = addAll (Values_Add m k v) ps"
  by (simp add: addAll_def)

lemma addFields_exported:
  "\<forall>f \<in> set fs. IsExported f \<Longrightarrow> addFields lower fs q = Inr (addAll q (map (fieldPair lower) fs))"
proof (induction fs arbitrary: q)
  case Nil
  then show ?case by simp
next
  case (Cons f fs)
  then show ?case
    by (simp add: Let_def fieldPair_def Sprintf_v del: Sprintf.simps)
qed

subsection \<open>\<open>url.Values\<close> as a map\<close>

lemma map_of_Add:
  "map_of (Values_Add m k v) k' =
     (if k' = k then Some (Values_lookup m k @ [v]) else map_of m k')"
proof (induction m)
  case Nil
  then show ?case by (simp add: Values_lookup_def)
next
  case (Cons e m)
  obtain k0 vs where e: "e = (k0, vs)" by (cases e)
  from Cons.IH show ?case
    by (auto simp add: e Values_lookup_def)
qed

lemma lookup_Add:
  "Values_lookup (Values_Add m k v) k' =
     (if k' = k then Values_lookup m k @ [v] else Values_lookup m k')"
  by (simp add: Values_lookup_def [of "Values_Add m k v"] map_of_Add)
    (simp add: Values_lookup_def)

lemma keys_Add: "fst ` set (Values_Add m k v) = insert k (fst ` set m)"
proof (induction m)
  case Nil
  then show ?case by simp
next
  case (Cons e m)
  obtain k0 vs where e: "e = (k0, vs)" by (cases e)
  from Cons.IH show ?case
    by (auto simp add: e)
qed

lemma distinct_Add:
  "distinct (map fst m) \<Longrightarrow> distinct (map fst (Values_Add m k v))"
proof (induction m)
  case Nil
  then show ?case by simp
next
  case (Cons e m)
  obtain k0 vs where e: "e = (k0, vs)" by (cases e)
  from Cons show ?case
    by (auto simp add: e keys_Add)
qed

lemma lookup_addAll:
  "Values_lookup (addAll m ps) k = Values_lookup m k @ map snd (filter (\<lambda>p. fst p = k) ps)"
proof (induction ps arbitrary: m)
  case Nil
  then show ?case by simp
next
  case (Cons p ps)
  obtain k' v' where p: "p = (k', v')" by (cases p)
  show ?case
    by (simp add: p Cons.IH lookup_Add)
qed

lemma keys_addAll: "fst ` set (addAll m ps) = fst ` set m \<union> fst ` set ps"
proof (induction ps arbitrary: m)
  case Nil
  then show ?case by simp
next
  case (Cons p ps)
  obtain k' v' where p: "p = (k', v')" by (cases p)
  show ?case
    by (simp add: p Cons.IH keys_Add)
qed

lemma distinct_addAll: "distinct (map fst m) \<Longrightarrow> distinct (map fst (addAll m ps))"
proof (induction ps arbitrary: m)
  case Nil
  then show ?case by simp
next
  case (Cons p ps)
  obtain k' v' where p: "p = (k', v')" by (cases p)
  from Cons.prems show ?case
    by (simp add: p Cons.IH distinct_Add)
qed

lemma lookup_Nil [simp]: "Values_lookup [] k = []"
  by (simp add: Values_lookup_def)

subsection \<open>The buffer of \<open>Encode\<close>\<close>

lemma pairText_nonempty: "pairText p \<noteq> []"
  by (simp add: pairText_def)

lemma joinAmp_Cons: "joinAmp (p # ps) = p @ concat (map ((@) ''&'') ps)"
  by (induction ps arbitrary: p rule: joinAmp.induct) simp_all

lemma writePair_pairText:
  "writePair buf (QueryEscape k) v = (if buf \<noteq> [] then buf @ ''&'' else buf) @ pairText (k, v)"
  by (simp add: writePair_def pairText_def)

lemma fold_buffer_nonempty:
  "buf \<noteq> [] \<Longrightarrow>
     foldl (\<lambda>buf p. writePair buf (QueryEscape (fst p)) (snd p)) buf ps
       = buf @ concat (map (\<lambda>p. ''&'' @ pairText p) ps)"
proof (induction ps arbitrary: buf)
  case Nil
  then show ?case by simp
next
  case (Cons p ps)
  have "writePair buf (QueryEscape (fst p)) (snd p) = buf @ ''&'' @ pairText p"
    using Cons.prems by (simp add: writePair_pairText)
  moreover have "buf @ ''&'' @ pairText p \<noteq> []"
    using Cons.prems by simp
  ultimately show ?case
    using Cons.IH [of "buf @ ''&'' @ pairText p"] by simp
qed

lemma fold_buffer_empty:
  "foldl (\<lambda>buf p. writePair buf (QueryEscape (fst p)) (snd p)) [] ps = joinAmp (map pairText ps)"
proof (cases ps)
  case Nil
  then show ?thesis by simp
next
  case (Cons p ps')
  have "writePair [] (QueryEscape (fst p)) (snd p) = pairText p"
    by (simp add: writePair_pairText)
  then show ?thesis
    using fold_buffer_nonempty [OF pairText_nonempty, of p ps']
    by (simp add: Cons joinAmp_Cons comp_def)
qed

lemma fold_keys_values:
  "foldl (\<lambda>buf k. foldl (\<lambda>buf v. f buf (k, v)) buf (g k)) buf ks
     = foldl f buf (concat (map (\<lambda>k. map (Pair k) (g k)) ks))"
  by (induction ks arbitrary: buf) (simp_all add: foldl_map)

lemma Values_Encode_join: "Values_Encode m = joinAmp (map pairText (pairsOf m))"
proof -
  have "Values_Encode m =
      foldl (\<lambda>buf k. foldl (\<lambda>buf v. (\<lambda>buf p. writePair buf (QueryEscape (fst p)) (snd p)) buf (k, v))
                        buf (Values_lookup m k))
        [] (sort (map fst m))"
    by (simp add: Values_Encode_def)
  also have "\<dots> = foldl (\<lambda>buf p. writePair buf (QueryEscape (fst p)) (snd p)) [] (pairsOf m)"
    unfolding pairsOf_def by (rule fold_keys_values)
  finally show ?thesis
    by (simp add: fold_buffer_empty)
qed

subsection \<open>Grouping by sorted keys is a stable sort\<close>

lemma grouped_simps [simp]:
  "grouped [] ps = []"
  "grouped (k # ks) ps = filter (\<lambda>p. fst p = k) ps @ grouped ks ps"
  by (simp_all add: grouped_def)

lemma grouped_keys: "fst ` set (grouped ks ps) \<subseteq> set ks"
  by (induction ks) auto

lemma grouped_subset: "set (grouped ks ps) \<subseteq> set ps"
  by (induction ks) auto

lemma grouped_sorted: "sorted ks \<Longrightarrow> sorted (map fst (grouped ks ps))"
proof (induction ks)
  case Nil
  then show ?case by simp
next
  case (Cons k ks)
  have 1: "sorted (map fst (filter (\<lambda>p. fst p = k) ps))"
    by (rule sorted_map_same)
  from Cons have 2: "sorted (map fst (grouped ks ps))"
    by simp
  have 3: "x \<le> y" if "x \<in> set (map fst (filter (\<lambda>p. fst p = k) ps))"
      and "y \<in> set (map fst (grouped ks ps))" for x y
  proof -
    from that(1) have "x = k" by auto
    moreover from that(2) grouped_keys [of ks ps] have "y \<in> set ks" by auto
    ultimately show ?thesis using Cons.prems by auto
  qed
  from 1 2 3 show ?case
    by (simp add: sorted_append)
qed

lemma grouped_filter:
  "distinct ks \<Longrightarrow>
     filter (\<lambda>p. fst p = a) (grouped ks ps) = (if a \<in> set ks then filter (\<lambda>p. fst p = a) ps else [])"
proof (induction ks)
  case Nil
  then show ?case by simp
next
  case (Cons k ks)
  have "filter (\<lambda>p. fst p = a) (filter (\<lambda>p. fst p = k) ps)
          = (if a = k then filter (\<lambda>p. fst p = a) ps else [])"
    by (induction ps) auto
  with Cons show ?case
    by auto
qed

lemma mset_filter_disjoint:
  "(\<And>x. \<not> (P x \<and> Q x)) \<Longrightarrow>
     mset (filter P xs) + mset (filter Q xs) = mset (filter (\<lambda>x. P x \<or> Q x) xs)"
  by (induction xs) auto

lemma grouped_mset:
  "distinct ks \<Longrightarrow> mset (grouped ks ps) = mset (filter (\<lambda>p. fst p \<in> set ks) ps)"
proof (induction ks)
  case Nil
  then show ?case by simp
next
  case (Cons k ks)
  then have d: "\<not> (fst x = k \<and> fst x \<in> set ks)" for x :: "string \<times> string"
    by auto
  have "mset (grouped (k # ks) ps)
          = mset (filter (\<lambda>p. fst p = k) ps) + mset (filter (\<lambda>p. fst p \<in> set ks) ps)"
    using Cons by simp
  also have "\<dots> = mset (filter (\<lambda>p. fst p = k \<or> fst p \<in> set ks) ps)"
    using d by (rule mset_filter_disjoint)
  finally show ?case
    by (simp add: disj_commute eq_commute)
qed

lemma grouped_sort_key:
  assumes "distinct ks" and "sorted ks" and "fst ` set ps \<subseteq> set ks"
  shows "grouped ks ps = sort_key fst ps"
proof (rule sym, rule properties_for_sort_key)
  from assms(3) have "filter (\<lambda>p. fst p \<in> set ks) ps = ps"
    by (auto intro: filter_True)
  with assms(1) show "mset (grouped ks ps) = mset ps"
    by (simp add: grouped_mset)
next
  fix k
  assume "k \<in> set (grouped ks ps)"
  with grouped_subset [of ks ps] assms(3) have "fst k \<in> set ks"
    by auto
  with assms(1) have "filter (\<lambda>p. fst p = fst k) (grouped ks ps) = filter (\<lambda>p. fst p = fst k) ps"
    by (simp add: grouped_filter)
  then show "filter (\<lambda>x. fst k = fst x) (grouped ks ps) = filter (\<lambda>x. fst k = fst x) ps"
    by (simp add: eq_commute [of "fst k"])
next
  from assms(2) show "sorted (map fst (grouped ks ps))"
    by (rule grouped_sorted)
qed

lemma pairsOf_addAll: "pairsOf (addAll [] ps) = sort_key fst ps"
proof -
  let ?m = "addAll [] ps"
  let ?ks = "sort (map fst ?m)"
  have lk: "Values_lookup ?m k = map snd (filter (\<lambda>p. fst p = k) ps)" for k
    by (simp add: lookup_addAll)
  have "map (Pair k) (map snd (filter (\<lambda>p. fst p = k) ps)) = filter (\<lambda>p. fst p = k) ps" for k
    by (induction ps) auto
  then have "pairsOf ?m = grouped ?ks ps"
    by (simp add: pairsOf_def grouped_def lk)
  moreover have "distinct ?ks"
    using distinct_addAll [of "[]" ps] by simp
  moreover have "sorted ?ks"
    by simp
  moreover have "fst ` set ps \<subseteq> set ?ks"
    using keys_addAll [of "[]" ps] by simp
  ultimately show ?thesis
    by (simp add: grouped_sort_key)
qed

subsection \<open>Escaping\<close>

lemma toLowerByte_upper: "isUpperByte c \<Longrightarrow> isLowerByte (toLowerByte c)"
  by (simp add: toLowerByte_def isUpperByte_def isLowerByte_def)

lemma toLowerByte_keeps:
  "isLetterByte c \<or> isDigitByte c \<Longrightarrow> \<not> shouldEscape (toLowerByte c)"
proof (cases "isUpperByte c")
  case True
  then show ?thesis
    by (simp add: shouldEscape_def toLowerByte_upper)
next
  case False
  then have "toLowerByte c = c"
    by (simp add: toLowerByte_def)
  moreover assume "isLetterByte c \<or> isDigitByte c"
  ultimately show ?thesis
    using False by (auto simp add: shouldEscape_def isLetterByte_def)
qed

lemma isIdentifier_bytes:
  "isIdentifier s \<Longrightarrow> c \<in> set s \<Longrightarrow> isLetterByte c \<or> isDigitByte c"
  by (cases s) (auto simp add: isIdentifier_def list_all_iff)

lemma QueryEscape_unreserved:
  "(\<And>c. c \<in> set s \<Longrightarrow> \<not> shouldEscape c) \<Longrightarrow> QueryEscape s = s"
  by (induction s) (simp_all add: QueryEscape_def escapeByte_def)

lemma isIdentifier_ASCII: "isIdentifier s \<Longrightarrow> isASCII s"
proof -
  assume i: "isIdentifier s"
  have "(of_char c :: nat) < 128" if "c \<in> set s" for c
    using isIdentifier_bytes [OF i that]
    by (auto simp add: isLetterByte_def isLowerByte_def isUpperByte_def isDigitByte_def)
  then show ?thesis
    by (simp add: isASCII_def list_all_iff)
qed

lemma QueryEscape_identifier:
  assumes "isIdentifier s"
  shows "ToLower lower s = map toLowerByte s"
    and "QueryEscape (ToLower lower s) = map toLowerByte s"
proof -
  from assms show l: "ToLower lower s = map toLowerByte s"
    by (simp add: ToLower_ASCII isIdentifier_ASCII)
  have "QueryEscape (map toLowerByte s) = map toLowerByte s"
  proof (rule QueryEscape_unreserved)
    fix c
    assume "c \<in> set (map toLowerByte s)"
    then obtain d where "d \<in> set s" and "c = toLowerByte d"
      by auto
    with assms show "\<not> shouldEscape c"
      using isIdentifier_bytes [of s d] by (simp add: toLowerByte_keeps)
  qed
  with l show "QueryEscape (ToLower lower s) = map toLowerByte s"
    by simp
qed

lemma upperhex_not_question: "d < 16 \<Longrightarrow> upperhex d \<noteq> CHR ''?''"
proof -
  assume "d < 16"
  then have "upperhex d \<in> set ''0123456789ABCDEF''"
    unfolding upperhex_def by (intro nth_mem) simp
  then show ?thesis
    by auto
qed

lemma of_char_less_256: "(of_char c :: nat) < 256"
proof -
  have "(of_char c :: nat) mod 256 = of_char c"
    by (rule of_char_mod_256)
  moreover have "(of_char c :: nat) mod 256 < 256"
    by simp
  ultimately show ?thesis
    by simp
qed

lemma escapeByte_no_question: "CHR ''?'' \<notin> set (escapeByte c)"
proof (cases "shouldEscape c")
  case False
  then have "c \<noteq> CHR ''?''"
    by (auto simp add: shouldEscape_def isLowerByte_def isUpperByte_def isDigitByte_def)
  with False show ?thesis
    by (simp add: escapeByte_def)
next
  case True
  have "(of_char c :: nat) div 16 < 16"
    using of_char_less_256 [of c] by (simp add: less_mult_imp_div_less)
  then have a: "upperhex ((of_char c :: nat) div 16) \<noteq> CHR ''?''"
    by (rule upperhex_not_question)
  have b: "upperhex ((of_char c :: nat) mod 16) \<noteq> CHR ''?''"
    by (rule upperhex_not_question) simp
  from True a b show ?thesis
    by (auto simp add: escapeByte_def)
qed

lemma QueryEscape_no_question: "CHR ''?'' \<notin> set (QueryEscape s)"
  by (induction s) (simp_all add: QueryEscape_def escapeByte_no_question)

lemma pairText_no_question: "CHR ''?'' \<notin> set (pairText p)"
  by (simp add: pairText_def QueryEscape_no_question)

lemma joinAmp_no_question:
  "(\<And>p. p \<in> set ps \<Longrightarrow> CHR ''?'' \<notin> set p) \<Longrightarrow> CHR ''?'' \<notin> set (joinAmp ps)"
  by (cases ps) (auto simp add: joinAmp_Cons)

lemma Values_Encode_no_question: "CHR ''?'' \<notin> set (Values_Encode m)"
  unfolding Values_Encode_join by (rule joinAmp_no_question) (auto simp add: pairText_no_question)

subsection \<open>The result on a struct of exported fields\<close>

lemma StructToQueryParams_exported:
  assumes "\<forall>f \<in> set fs. IsExported f"
  shows "StructToQueryParams lower (GStruct fs) =
           Inr (joinAmp (map pairText (sort_key fst (map (fieldPair lower) fs))), None)"
  using assms
  by (simp add: StructToQueryParams_struct addFields_exported Values_Encode_join pairsOf_addAll)

lemma specPairs_untagged:
  "\<forall>f \<in> set fs. TagQuery f = [] \<Longrightarrow> map (fieldPair lower) fs = specPairs lower fs"
  by (simp add: specPairs_def fieldPair_def)

lemma pairText_spec:
  "map pairText ps = map (\<lambda>(k, v). QueryEscape k @ ''='' @ QueryEscape v) ps"
  by (simp add: pairText_def case_prod_unfold)

lemma StructToQueryParams_untagged:
  assumes "\<forall>f \<in> set fs. IsExported f \<and> TagQuery f = []"
  shows "StructToQueryParams lower (GStruct fs) = Inr (specQueryString lower fs, None)"
proof -
  from assms have e: "\<forall>f \<in> set fs. IsExported f" and t: "\<forall>f \<in> set fs. TagQuery f = []"
    by simp_all
  from StructToQueryParams_exported [OF e, of lower] specPairs_untagged [OF t, of lower]
  show ?thesis
    by (simp add: specQueryString_def pairText_spec)
qed

lemma StructToQueryParams_panics_iff:
  "StructToQueryParams lower (GStruct fs) = Inl unexportedPanic \<longleftrightarrow>
     (\<exists>f \<in> set fs. \<not> IsExported f)"
proof
  assume p: "StructToQueryParams lower (GStruct fs) = Inl unexportedPanic"
  show "\<exists>f \<in> set fs. \<not> IsExported f"
  proof (rule ccontr)
    assume "\<not> (\<exists>f \<in> set fs. \<not> IsExported f)"
    then have "\<forall>f \<in> set fs. IsExported f"
      by simp
    from StructToQueryParams_exported [OF this, of lower] p show False
      by simp
  qed
next
  assume "\<exists>f \<in> set fs. \<not> IsExported f"
  then show "StructToQueryParams lower (GStruct fs) = Inl unexportedPanic"
    by (auto simp add: StructToQueryParams_struct addFields_unexported)
qed

lemma johnFields_ok: "list_all (\<lambda>f. IsExported f \<and> TagQuery f = []) johnFields"
  by code_simp

lemma escapedFields_ok: "list_all (\<lambda>f. IsExported f \<and> TagQuery f = []) escapedFields"
  by code_simp

lemma specQueryString_john: "specQueryString latin1Lower johnFields = ''age=25&name=john''"
  by code_simp

lemma specQueryString_escaped:
  "specQueryString latin1Lower escapedFields = ''active=true&search=a+b%26c%3F&%C3%B1ame=x''"
  by code_simp

lemma StructToQueryParams_escaped:
  "StructToQueryParams latin1Lower (GStruct escapedFields)
     = Inr (''active=true&search=a+b%26c%3F&%C3%B1ame=x'', None)"
  by code_simp

lemma StructToQueryParams_tagged:
  "StructToQueryParams lower (GStruct taggedFields) = Inr (''age=25&name=john'', None)"
  by code_simp

lemma StructToQueryParams_accented:
  "StructToQueryParams latin1Lower (GStruct accentedFields) = Inr (''%C3%B1ame=x'', None)"
  by code_simp

text \<open>
  Claim C1, as amended. For every struct whose fields are all exported and carry no
  \<open>query\<close> tag, \<open>StructToQueryParams\<close> returns, with a nil error, the string the
  specification describes: for each field the pair of its name in lower case and the
  text of its value, both percent-encoded and written \<open>key=value\<close>, the pairs sorted by
  key (the key as it is before the encoding) and joined by \<open>&\<close>. The sorted pairs are a
  rearrangement of the fields' pairs, and the string contains no \<open>?\<close>, so none leads it.
  For a field whose name is an ASCII identifier the key is the name with \<open>A\<close>..\<open>Z\<close>
  mapped to \<open>a\<close>..\<open>z\<close>, and the encoding leaves it as it is. The struct
  \<open>{Name: "john", Age: 25}\<close> gives \<open>age=25&name=john\<close>; with the case mapping of the
  examples, the struct \<open>{Search: "a b&c?", Name: "x", Active: true}\<close> whose second
  field starts with a capital N with a tilde gives
  \<open>active=true&search=a+b%26c%3F&%C3%B1ame=x\<close>.
\<close>

theorem struct_query_string:
  "((\<forall>f \<in> set fs. IsExported f \<and> TagQuery f = []) \<longrightarrow>
      StructToQueryParams lower (GStruct fs) = Inr (specQueryString lower fs, None)
      \<and> sorted (map fst (sort_key fst (specPairs lower fs)))
      \<and> mset (sort_key fst (specPairs lower fs)) = mset (specPairs lower fs)
      \<and> CHR ''?'' \<notin> set (specQueryString lower fs)
      \<and> (\<forall>f \<in> set fs. isIdentifier (Name f) \<longrightarrow>
            ToLower lower (Name f) = map toLowerByte (Name f)
            \<and> QueryEscape (ToLower lower (Name f)) = map toLowerByte (Name f)))
   \<and> StructToQueryParams lower (GStruct johnFields) = Inr (''age=25&name=john'', None)
   \<and> StructToQueryParams latin1Lower (GStruct escapedFields)
       = Inr (''active=true&search=a+b%26c%3F&%C3%B1ame=x'', None)"
proof (intro conjI impI ballI)
  assume a: "\<forall>f \<in> set fs. IsExported f \<and> TagQuery f = []"
  then have e: "\<forall>f \<in> set fs. IsExported f"
    by simp
  from a show r: "StructToQueryParams lower (GStruct fs) = Inr (specQueryString lower fs, None)"
    by (rule StructToQueryParams_untagged)
  show "sorted (map fst (sort_key fst (specPairs lower fs)))"
    by simp
  show "mset (sort_key fst (specPairs lower fs)) = mset (specPairs lower fs)"
    by simp
  from e have "addFields lower fs [] = Inr (addAll [] (map (fieldPair lower) fs))"
    by (rule addFields_exported)
  with r have "specQueryString lower fs = Values_Encode (addAll [] (map (fieldPair lower) fs))"
    by (simp add: StructToQueryParams_struct)
  then show "CHR ''?'' \<notin> set (specQueryString lower fs)"
    by (simp add: Values_Encode_no_question)
  {
    fix f
    assume "isIdentifier (Name f)"
    then show "ToLower lower (Name f) = map toLowerByte (Name f)"
      and "QueryEscape (ToLower lower (Name f)) = map toLowerByte (Name f)"
      by (rule QueryEscape_identifier)+
  }
next
  show "StructToQueryParams lower (GStruct johnFields) = Inr (''age=25&name=john'', None)"
    by (rule StructToQueryParams_john)
next
  show "StructToQueryParams latin1Lower (GStruct escapedFields)
       = Inr (''active=true&search=a+b%26c%3F&%C3%B1ame=x'', None)"
    by (rule StructToQueryParams_escaped)
qed

theorem struct_query_string_witness:
  "StructToQueryParams latin1Lower (GStruct escapedFields)
     = Inr (specQueryString latin1Lower escapedFields, None)
   \<and> specQueryString latin1Lower escapedFields = ''active=true&search=a+b%26c%3F&%C3%B1ame=x''
   \<and> CHR ''?'' \<notin> set (specQueryString latin1Lower escapedFields)
   \<and> StructToQueryParams latin1Lower (GStruct johnFields)
     = Inr (specQueryString latin1Lower johnFields, None)
   \<and> specQueryString latin1Lower johnFields = ''age=25&name=john''"
proof -
  have 1: "\<forall>f \<in> set escapedFields. IsExported f \<and> TagQuery f = []"
    using escapedFields_ok by (simp add: list_all_iff)
  have 2: "\<forall>f \<in> set johnFields. IsExported f \<and> TagQuery f = []"
    using johnFields_ok by (simp add: list_all_iff)
  from struct_query_string [where fs = escapedFields and lower = latin1Lower] 1
  have a: "StructToQueryParams latin1Lower (GStruct escapedFields)
             = Inr (specQueryString latin1Lower escapedFields, None)"
    and b: "CHR ''?'' \<notin> set (specQueryString latin1Lower escapedFields)"
    by blast+
  from struct_query_string [where fs = johnFields and lower = latin1Lower] 2
  have c: "StructToQueryParams latin1Lower (GStruct johnFields)
             = Inr (specQueryString latin1Lower johnFields, None)"
    by blast
  from a b c show ?thesis
    by (simp add: specQueryString_john specQueryString_escaped)
qed

text \<open>
  Claim C1 as stated fails: in the struct \<open>{Name: "john", age: 25}\<close> the one exported
  field carries no \<open>query\<close> tag, and \<open>StructToQueryParams\<close> does not return a string for
  it: it panics on the unexported field.
\<close>

theorem unexported_field_struct_counterexample:
  "map IsExported unexportedFields = [True, False]
   \<and> map TagQuery unexportedFields = [[], []]
   \<and> StructToQueryParams latin1Lower (GStruct unexportedFields) = Inl unexportedPanic
   \<and> StructToQueryParams latin1Lower (GStruct unexportedFields)
       \<noteq> Inr (specQueryString latin1Lower unexportedFields, None)"
  by code_simp

text \<open>
  Claim C9. On a struct (or a pointer to a struct) that has an unexported field,
  \<open>StructToQueryParams\<close> panics in \<open>reflect.Value.Interface\<close>: it returns neither a
  string nor an error, and the request modifier made of such a struct panics in the same
  way. The panic comes from the unexported fields and from nothing else: the call on a
  struct panics exactly when one of the fields is unexported. A field whose name starts
  with an upper-case letter outside ASCII is exported: with the case mapping of the
  examples, the struct \<open>{Name: "x"}\<close> whose field starts with a capital N with a tilde
  gives \<open>%C3%B1ame=x\<close>.
\<close>

theorem unexported_field_panics:
  "(f \<in> set fs \<and> \<not> IsExported f \<longrightarrow>
      StructToQueryParams lower (GStruct fs) = Inl unexportedPanic
      \<and> StructToQueryParams lower (GPtr (Some (GStruct fs))) = Inl unexportedPanic
      \<and> QueryParameterRequestModifier lower (GStruct fs) req = Inl unexportedPanic)
   \<and> (StructToQueryParams lower (GStruct fs) = Inl unexportedPanic \<longleftrightarrow>
        (\<exists>f \<in> set fs. \<not> IsExported f))
   \<and> StructToQueryParams latin1Lower (GStruct accentedFields) = Inr (''%C3%B1ame=x'', None)"
proof (intro conjI impI)
  assume a: "f \<in> set fs \<and> \<not> IsExported f"
  then show s: "StructToQueryParams lower (GStruct fs) = Inl unexportedPanic"
    by (auto simp add: StructToQueryParams_struct addFields_unexported)
  then show "StructToQueryParams lower (GPtr (Some (GStruct fs))) = Inl unexportedPanic"
    by (simp add: StructToQueryParams_ptr)
  from s show "QueryParameterRequestModifier lower (GStruct fs) req = Inl unexportedPanic"
    by (simp add: QueryParameterRequestModifier_def)
next
  show "StructToQueryParams lower (GStruct fs) = Inl unexportedPanic \<longleftrightarrow>
        (\<exists>f \<in> set fs. \<not> IsExported f)"
    by (rule StructToQueryParams_panics_iff)
next
  show "StructToQueryParams latin1Lower (GStruct accentedFields) = Inr (''%C3%B1ame=x'', None)"
    by (rule StructToQueryParams_accented)
qed

lemma unexported_age:
  "\<not> IsExported \<lparr>Name = ''age'', PkgPath = ''main'', TagQuery = [], FieldValue = GInt 25\<rparr>"
  by code_simp

theorem unexported_field_panics_witness:
  "StructToQueryParams latin1Lower (GStruct unexportedFields) = Inl unexportedPanic
   \<and> StructToQueryParams latin1Lower (GPtr (Some (GStruct unexportedFields))) = Inl unexportedPanic
   \<and> QueryParameterRequestModifier latin1Lower (GStruct unexportedFields) (exampleRequest [])
       = Inl unexportedPanic"
  using unexported_field_panics [where lower = latin1Lower and fs = unexportedFields
      and f = "\<lparr>Name = ''age'', PkgPath = ''main'', TagQuery = [], FieldValue = GInt 25\<rparr>"
      and req = "exampleRequest []"]
  by (simp add: unexportedFields_def unexported_age)

text \<open>
  Claim C10. A pointer to a struct is accepted: it is dereferenced and encoded as the
  struct is. So when the fields of the struct are exported the result is, with a nil
  error, the pairs of the fields (the key being the field's tag, or without a tag its
  name in lower case) sorted by key, percent-encoded and joined by \<open>&\<close>; without tags it
  is the string of claim C1. A pointer to \<open>{Name: "john", Age: 25}\<close>, with or without
  the tags of the test, gives \<open>age=25&name=john\<close>. A nil pointer gives the error of a
  non-struct input and no panic. Only one pointer is followed: a pointer to a pointer to
  a struct is rejected.
\<close>

theorem pointer_dereferenced:
  "StructToQueryParams lower (GPtr (Some (GStruct fs))) = StructToQueryParams lower (GStruct fs)
   \<and> ((\<forall>f \<in> set fs. IsExported f) \<longrightarrow>
        StructToQueryParams lower (GPtr (Some (GStruct fs)))
          = Inr (joinAmp (map pairText (sort_key fst (map (fieldPair lower) fs))), None))
   \<and> ((\<forall>f \<in> set fs. IsExported f \<and> TagQuery f = []) \<longrightarrow>
        StructToQueryParams lower (GPtr (Some (GStruct fs))) = Inr (specQueryString lower fs, None))
   \<and> StructToQueryParams lower (GPtr (Some (GStruct johnFields))) = Inr (''age=25&name=john'', None)
   \<and> StructToQueryParams lower (GPtr (Some (GStruct taggedFields))) = Inr (''age=25&name=john'', None)
   \<and> StructToQueryParams lower (GPtr None) = Inr ([], Some InvalidInputKind)
   \<and> StructToQueryParams lower (GPtr None) = StructToQueryParams lower (GScalar s)
   \<and> StructToQueryParams lower (GPtr (Some (GPtr (Some (GStruct fs)))))
       = Inr ([], Some InvalidInputKind)"
proof (intro conjI impI)
  show "StructToQueryParams lower (GPtr (Some (GStruct fs))) = StructToQueryParams lower (GStruct fs)"
    by (simp add: StructToQueryParams_ptr)
next
  assume "\<forall>f \<in> set fs. IsExported f"
  then show "StructToQueryParams lower (GPtr (Some (GStruct fs)))
          = Inr (joinAmp (map pairText (sort_key fst (map (fieldPair lower) fs))), None)"
    by (simp add: StructToQueryParams_ptr StructToQueryParams_exported)
next
  assume "\<forall>f \<in> set fs. IsExported f \<and> TagQuery f = []"
  then show "StructToQueryParams lower (GPtr (Some (GStruct fs)))
          = Inr (specQueryString lower fs, None)"
    by (simp add: StructToQueryParams_ptr StructToQueryParams_untagged)
next
  show "StructToQueryParams lower (GPtr (Some (GStruct johnFields)))
          = Inr (''age=25&name=john'', None)"
    by (simp add: StructToQueryParams_ptr StructToQueryParams_john)
next
  show "StructToQueryParams lower (GPtr (Some (GStruct taggedFields)))
          = Inr (''age=25&name=john'', None)"
    by (simp add: StructToQueryParams_ptr StructToQueryParams_tagged)
next
  show "StructToQueryParams lower (GPtr None) = Inr ([], Some InvalidInputKind)"
    by (simp add: StructToQueryParams_nil)
next
  show "StructToQueryParams lower (GPtr None) = StructToQueryParams lower (GScalar s)"
    by (simp add: StructToQueryParams_nil StructToQueryParams_scalar)
next
  show "StructToQueryParams lower (GPtr (Some (GPtr (Some (GStruct fs)))))
       = Inr ([], Some InvalidInputKind)"
    by (simp add: StructToQueryParams_ptr)
qed

theorem pointer_dereferenced_witness:
  "StructToQueryParams latin1Lower (GPtr (Some (GStruct escapedFields)))
     = Inr (''active=true&search=a+b%26c%3F&%C3%B1ame=x'', None)
   \<and> StructToQueryParams latin1Lower (GPtr (Some (GStruct escapedFields)))
     = StructToQueryParams latin1Lower (GStruct escapedFields)
   \<and> StructToQueryParams latin1Lower (GPtr None) = Inr ([], Some InvalidInputKind)"
proof -
  have 1: "\<forall>f \<in> set escapedFields. IsExported f \<and> TagQuery f = []"
    using escapedFields_ok by (simp add: list_all_iff)
  from pointer_dereferenced [where fs = escapedFields and lower = latin1Lower] 1
  have "StructToQueryParams latin1Lower (GPtr (Some (GStruct escapedFields)))
          = Inr (specQueryString latin1Lower escapedFields, None)"
    and "StructToQueryParams latin1Lower (GPtr (Some (GStruct escapedFields)))
          = StructToQueryParams latin1Lower (GStruct escapedFields)"
    and "StructToQueryParams latin1Lower (GPtr None) = Inr ([], Some InvalidInputKind)"
    by blast+
  then show ?thesis
    by (simp add: specQueryString_escaped)
qed

end
